theory Spec2Isabelle
  imports Complex_Main
begin

section \<open>The follow-up communication coordinator\<close>

text \<open>
  A shallow embedding of the class \<open>CommunicationCoordinator\<close> (the orchestrator of
  follow-up messages) and of \<open>SmartMessagingEngine.calculateUrgencyScore\<close>.

  Conventions of the embedding.
  \<^item> A JavaScript \<open>number\<close> is a \<open>real\<close>, standing for a finite double. The channel
    scores and the effectiveness update round every operation as IEEE 754 binary64 does
    (\<open>fadd\<close>, \<open>fmul\<close>, \<open>fdiv\<close> below), and the decimal literals of the flow catalog and
    of these paths are the doubles nearest to them (\<open>tenths\<close>). The wait time, the mean
    engagement and the urgency buckets are written with exact operations. Timestamps
    (\<open>Date.now()\<close>, \<open>new Date(s).getTime()\<close>) are integers, in milliseconds.
  \<^item> The three private maps of the coordinator, keyed by customer id, are the fields of the
    record \<open>Coordinator\<close>; every method takes the coordinator and, when it mutates a map,
    returns the updated one.
  \<^item> A thrown \<open>Error\<close> or \<open>TypeError\<close> is the \<open>Inl\<close> of a sum; the coordinator is
    returned with it, since the mutations made before the throw stay.
  \<^item> \<open>Date.now()\<close> is the argument \<open>now\<close>. The delivery gateway \<open>sendMessage\<close> draws
    its reply at random: the reply is the argument \<open>resp\<close>, and every invocation of the
    gateway is appended to the field \<open>sent\<close>.
  \<^item> Message composition (\<open>smartMessaging.generateSmartMessage\<close>) is a collaborator
    outside the coordinator: it is the argument \<open>compose\<close>, applied to what
    \<open>generateMessage\<close> hands over. The object \<open>documentProcessor\<close> that the coordinator
    imports has no method \<open>analyze\<close>; the call of it in \<open>generateMessage\<close> throws.
\<close>

subsection \<open>Data model\<close>

datatype ChannelType = Email | Whatsapp | Phone | Sms | Portal

fun type_name :: "ChannelType \<Rightarrow> string" where
  "type_name Email = ''email''"
| "type_name Whatsapp = ''whatsapp''"
| "type_name Phone = ''phone''"
| "type_name Sms = ''sms''"
| "type_name Portal = ''portal''"

definition all_channel_types :: "ChannelType list" where
  "all_channel_types = [Email, Whatsapp, Phone, Sms, Portal]"

record Thresholds =
  urgency :: real
  sentiment :: real
  engagement :: real

record ChannelConfig =
  ctype :: ChannelType
  ch_priority :: real
  waitTime :: real
  templates :: "string list"
  fallbackChannel :: "string option"
  thresholds :: Thresholds

text \<open>
  Of a customer the coordinator reads \<open>id\<close> and \<open>language\<close>; of a document,
  \<open>due_date\<close>, \<open>type\<close> and \<open>reminder_count\<close> (a count, when present). The field
  \<open>due_date\<close> holds
  \<open>new Date(document.due_date).getTime()\<close>; it is \<open>None\<close> for the empty string and for
  a string that is no date (\<open>NaN\<close>), on which every comparison of the source is false.
\<close>

record Customer =
  customer_id :: string
  language :: "string option"

record CustomerDocument =
  doc_id :: string
  doc_type :: string
  due_date :: "int option"
  reminder_count :: "nat option"

record ResponseMetrics =
  channel :: ChannelType
  responseTime :: real
  rm_sentiment :: real
  wasSuccessful :: bool
  rm_engagementScore :: real
  followUpRequired :: bool

record EscalationContext =
  customer :: Customer
  document :: CustomerDocument
  attempts :: nat
  lastResponse :: "ResponseMetrics option"
  urgencyScore :: real
  engagementScore :: real
  ctx_channelEffectiveness :: "ChannelType \<rightharpoonup> real"

record EscalationRule =
  condition :: "int \<Rightarrow> EscalationContext \<Rightarrow> bool"
  action :: string
  priority :: real
  cooldown :: "real option"
  requiredApproval :: "bool option"

record AutoAdjustment =
  enabled :: bool
  factors :: "string list"
  learningRate :: real

record CommunicationFlow =
  channels :: "ChannelConfig list"
  maxAttempts :: real
  escalationRules :: "EscalationRule list"
  autoAdjustment :: AutoAdjustment

text \<open>The reply of the delivery gateway.\<close>

record Response =
  success :: bool
  time :: real
  resp_sentiment :: real

text \<open>
  An escalation id is the string \<open>`${rule.action}_${Date.now()}`\<close>; it is kept as the pair
  of the action and the timestamp, from which the string is built and which the string
  determines (the digits after the last underscore). A \<open>Set\<close> of ids is the list of its
  elements in insertion order, as \<open>Array.from\<close> reads it.
\<close>

type_synonym EscalationId = "string \<times> int"

record 'm Coordinator =
  responseHistory :: "string \<rightharpoonup> ResponseMetrics list"
  channelEffectiveness :: "string \<rightharpoonup> (ChannelType \<rightharpoonup> real)"
  escalationHistory :: "string \<rightharpoonup> EscalationId list"
  sent :: "(ChannelType \<times> 'm) list"

text \<open>What \<open>generateMessage\<close> hands to the composition collaborator.\<close>

record MessageContext =
  previousInteractions :: "ResponseMetrics list"
  preferredChannel :: ChannelType
  preferredLanguage :: string
  responseRate :: real
  typicalResponseTime :: real
  escalationContext :: EscalationContext

datatype error = FlowNotFound string | TypeError

datatype Result =
    Escalated "EscalationId list"
  | EscalationStatus string EscalationContext
  | Delivered Response

definition initial :: "'m Coordinator" where
  "initial = \<lparr> responseHistory = Map.empty, channelEffectiveness = Map.empty,
               escalationHistory = Map.empty, sent = [] \<rparr>"

subsection \<open>JavaScript operators\<close>

text \<open>\<open>x || d\<close> on an optional number: \<open>undefined\<close> and \<open>0\<close> are falsy.\<close>

fun or_default :: "real option \<Rightarrow> real \<Rightarrow> real" where
  "or_default None d = d"
| "or_default (Some v) d = (if v = 0 then d else v)"

text \<open>
  \<open>Math.max(...vs) < b\<close>: the maximum of no number is \<open>-Infinity\<close>, so the comparison
  holds exactly when every element is below \<open>b\<close>.
\<close>

definition math_max_lt :: "real list \<Rightarrow> real \<Rightarrow> bool" where
  "math_max_lt vs b = list_all (\<lambda>v. v < b) vs"

text \<open>\<open>Object.values\<close> of the effectiveness record: the values of the keys it has.\<close>

definition object_values :: "(ChannelType \<rightharpoonup> real) \<Rightarrow> real list" where
  "object_values m = List.map_filter m all_channel_types"

text \<open>\<open>xs.slice(-5)\<close>: the last five elements, all of them when there are fewer.\<close>

definition slice_last5 :: "'a list \<Rightarrow> 'a list" where
  "slice_last5 xs = drop (length xs - 5) xs"

text \<open>\<open>Set.prototype.add\<close> on the insertion-ordered list.\<close>

definition set_add :: "'a \<Rightarrow> 'a list \<Rightarrow> 'a list" where
  "set_add x xs = (if x \<in> set xs then xs else xs @ [x])"

subsection \<open>Floating-point arithmetic\<close>

text \<open>
  IEEE 754 binary64, rounding to nearest, ties to even. A finite double is an integer of
  less than 54 bits times a power of two; \<open>ulp x\<close> is the spacing of the doubles around
  \<open>x\<close>: \<open>2\<close> to the power of the binary exponent of \<open>x\<close> (at least \<open>-1022\<close>, where the
  subnormal numbers start) minus 52. \<open>round_double\<close> takes a real to the nearest multiple
  of that spacing. Beyond the largest double the code has \<open>Infinity\<close>, which is not a value
  here; the sums below either stay under it or are clamped to \<open>[0, 1]\<close> at once.
\<close>

definition binary_exponent :: "real \<Rightarrow> int" where
  "binary_exponent x =
     (if \<bar>x\<bar> < 2 powi (- 1022) then - 1022
      else Max (set (filter (\<lambda>e. 2 powi e \<le> \<bar>x\<bar>) [- 1022..1023])))"

definition ulp :: "real \<Rightarrow> real" where
  "ulp x = 2 powi (binary_exponent x - 52)"

definition round_to_even :: "real \<Rightarrow> int" where
  "round_to_even r =
     (let f = \<lfloor>r\<rfloor>; d = r - of_int f
      in if d < 1 / 2 then f else if 1 / 2 < d then f + 1 else if even f then f else f + 1)"

definition round_double :: "real \<Rightarrow> real" where
  "round_double x = of_int (round_to_even (x / ulp x)) * ulp x"

definition fadd :: "real \<Rightarrow> real \<Rightarrow> real" where
  "fadd x y = round_double (x + y)"

definition fmul :: "real \<Rightarrow> real \<Rightarrow> real" where
  "fmul x y = round_double (x * y)"

definition fdiv :: "real \<Rightarrow> real \<Rightarrow> real" where
  "fdiv x y = round_double (x / y)"

text \<open>The decimal literal \<open>n/10\<close> of the source: \<open>tenths 3\<close> is the double \<open>0.3\<close>.\<close>

definition tenths :: "int \<Rightarrow> real" where
  "tenths n = round_double (of_int n / 10)"

subsection \<open>The flow catalog\<close>

definition default_rules :: "EscalationRule list" where
  "default_rules =
    [ \<lparr> condition = (\<lambda>now ctx. attempts ctx \<ge> 2 \<and> urgencyScore ctx > tenths 8),
        action = ''escalate_to_manager'', priority = 1,
        cooldown = None, requiredApproval = Some True \<rparr>,
      \<comment> \<open>\<open>ctx.sentiment\<close> is no property of the context: \<open>undefined < -0.5\<close> is false\<close>
      \<lparr> condition = (\<lambda>now ctx. False \<and> attempts ctx > 1),
        action = ''human_intervention'', priority = 2,
        cooldown = Some 24, requiredApproval = None \<rparr>,
      \<lparr> condition = (\<lambda>now ctx. case due_date (document ctx) of
                          None \<Rightarrow> False
                        | Some due \<Rightarrow> due - now < 48 * 60 * 60 * 1000),
        action = ''urgent_escalation'', priority = 3,
        cooldown = None, requiredApproval = None \<rparr>,
      \<lparr> condition = (\<lambda>now ctx. engagementScore ctx < tenths 3 \<and> attempts ctx > 3),
        action = ''switch_channel'', priority = 4,
        cooldown = None, requiredApproval = None \<rparr>,
      \<lparr> condition = (\<lambda>now ctx.
                        math_max_lt (object_values (ctx_channelEffectiveness ctx))
                          (tenths 4)),
        action = ''try_alternative_channel'', priority = 5,
        cooldown = None, requiredApproval = None \<rparr> ]"

definition email_channel :: ChannelConfig where
  "email_channel =
     \<lparr> ctype = Email, ch_priority = 1, waitTime = 48,
       templates = [''friendly_reminder'', ''follow_up''], fallbackChannel = None,
       thresholds = \<lparr> urgency = 0.5, sentiment = tenths 3, engagement = tenths 4 \<rparr> \<rparr>"

definition whatsapp_channel :: ChannelConfig where
  "whatsapp_channel =
     \<lparr> ctype = Whatsapp, ch_priority = 2, waitTime = 24,
       templates = [''urgent_reminder'', ''quick_check''], fallbackChannel = Some ''sms'',
       thresholds = \<lparr> urgency = tenths 7, sentiment = tenths 2, engagement = tenths 6 \<rparr> \<rparr>"

definition phone_channel :: ChannelConfig where
  "phone_channel =
     \<lparr> ctype = Phone, ch_priority = 3, waitTime = 12,
       templates = [''final_notice''], fallbackChannel = None,
       thresholds = \<lparr> urgency = tenths 9, sentiment = tenths 1, engagement = tenths 8 \<rparr> \<rparr>"

definition sms_channel :: ChannelConfig where
  "sms_channel =
     \<lparr> ctype = Sms, ch_priority = 2, waitTime = 24,
       templates = [''brief_reminder''], fallbackChannel = None,
       thresholds = \<lparr> urgency = tenths 6, sentiment = tenths 3, engagement = 0.5 \<rparr> \<rparr>"

definition portal_channel :: ChannelConfig where
  "portal_channel =
     \<lparr> ctype = Portal, ch_priority = 1, waitTime = 72,
       templates = [''portal_notification''], fallbackChannel = None,
       thresholds = \<lparr> urgency = tenths 4, sentiment = tenths 4, engagement = tenths 3 \<rparr> \<rparr>"

definition default_channels :: "ChannelConfig list" where
  "default_channels =
     [email_channel, whatsapp_channel, phone_channel, sms_channel, portal_channel]"

definition default_flow :: CommunicationFlow where
  "default_flow =
    \<lparr> channels = default_channels, maxAttempts = 5, escalationRules = default_rules,
      autoAdjustment = \<lparr> enabled = True,
        factors = [''response_time'', ''sentiment'', ''engagement''], learningRate = tenths 1 \<rparr> \<rparr>"

definition flows :: "string \<rightharpoonup> CommunicationFlow" where
  "flows = [''default'' \<mapsto> default_flow]"

subsection \<open>The history and effectiveness stores\<close>

definition getInteractionHistory :: "'m Coordinator \<Rightarrow> string \<Rightarrow> ResponseMetrics list" where
  "getInteractionHistory st customerId =
     (case responseHistory st customerId of None \<Rightarrow> [] | Some h \<Rightarrow> h)"

definition getCustomerHistory :: "'m Coordinator \<Rightarrow> string \<Rightarrow> ResponseMetrics list" where
  "getCustomerHistory st customerId =
     (case responseHistory st customerId of None \<Rightarrow> [] | Some h \<Rightarrow> h)"

definition trackResponse :: "'m Coordinator \<Rightarrow> string \<Rightarrow> ResponseMetrics \<Rightarrow> 'm Coordinator" where
  "trackResponse st customerId metrics =
     (let history = (case responseHistory st customerId of None \<Rightarrow> [] | Some h \<Rightarrow> h)
      in st\<lparr> responseHistory := (responseHistory st)(customerId \<mapsto> history @ [metrics]) \<rparr>)"

definition getChannelHistory ::
  "'m Coordinator \<Rightarrow> string \<Rightarrow> ChannelType \<Rightarrow> ResponseMetrics list" where
  "getChannelHistory st customerId channelType =
     filter (\<lambda>m. channel m = channelType) (getInteractionHistory st customerId)"

definition getChannelEffectiveness :: "'m Coordinator \<Rightarrow> string \<Rightarrow> (ChannelType \<rightharpoonup> real)" where
  "getChannelEffectiveness st customerId =
     (case channelEffectiveness st customerId of None \<Rightarrow> Map.empty | Some e \<Rightarrow> e)"

definition updateChannelEffectiveness ::
  "'m Coordinator \<Rightarrow> string \<Rightarrow> ChannelType \<Rightarrow> real \<Rightarrow> 'm Coordinator" where
  "updateChannelEffectiveness st customerId channelType adjustment =
     (let customerEffectiveness =
            (case channelEffectiveness st customerId of None \<Rightarrow> Map.empty | Some e \<Rightarrow> e);
          currentEffectiveness = or_default (customerEffectiveness channelType) 0.5
      in st\<lparr> channelEffectiveness := (channelEffectiveness st)(customerId \<mapsto>
              customerEffectiveness(channelType \<mapsto>
                max 0 (min 1 (fadd currentEffectiveness adjustment)))) \<rparr>)"

definition calculateResponseRate :: "'m Coordinator \<Rightarrow> string \<Rightarrow> real" where
  "calculateResponseRate st customerId =
     (let history = getInteractionHistory st customerId
      in if length history = 0 then 0.5
         else fdiv (real (length (filter wasSuccessful history))) (real (length history)))"

definition calculateAverageResponseTime :: "'m Coordinator \<Rightarrow> string \<Rightarrow> real" where
  "calculateAverageResponseTime st customerId =
     (let history = getInteractionHistory st customerId
      in if length history = 0 then 24
         else fdiv (foldl (\<lambda>sum h. fadd sum (responseTime h)) 0 history)
                   (real (length history)))"

subsection \<open>Scoring\<close>

text \<open>The coordinator's own \<open>calculateUrgencyScore\<close>; the document is not read.\<close>

definition calculateUrgencyScore :: "CustomerDocument \<Rightarrow> real" where
  "calculateUrgencyScore doc = 0.5"

text \<open>
  \<open>SmartMessagingEngine.calculateUrgencyScore\<close>, the function of the same name in the
  messaging engine. With an unreadable due date \<open>daysUntilDue\<close> is \<open>NaN\<close> and the
  chain of comparisons ends in its last branch.
\<close>

definition messaging_calculateUrgencyScore :: "int \<Rightarrow> CustomerDocument \<Rightarrow> real" where
  "messaging_calculateUrgencyScore now doc =
     (let proximity =
            (case due_date doc of
               None \<Rightarrow> 20
             | Some dueDate \<Rightarrow>
                 (let daysUntilDue = (dueDate - now) div (1000 * 60 * 60 * 24)
                  in if daysUntilDue < 0 then 100
                     else if daysUntilDue < 2 then 80
                     else if daysUntilDue < 5 then 60
                     else if daysUntilDue < 10 then 40
                     else (20::real)));
          importance =
            (if doc_type doc = ''Legal'' then 20 else 0)
            + (if doc_type doc = ''Financial'' then 15 else 0);
          reminders =
            (case reminder_count doc of
               None \<Rightarrow> 0
             | Some n \<Rightarrow> if n = 0 then 0 else min 20 (real n * 5))
      in min 100 (proximity + importance + reminders))"

definition calculateEngagementScore :: "Customer \<Rightarrow> ResponseMetrics list \<Rightarrow> real" where
  "calculateEngagementScore cust history =
     (if length history = 0 then 0.5
      else (let recentHistory = slice_last5 history
            in foldl (\<lambda>score metrics. score + rm_engagementScore metrics) 0 recentHistory
               / real (length recentHistory)))"

definition calculateChannelScore ::
  "'m Coordinator \<Rightarrow> ChannelConfig \<Rightarrow> EscalationContext \<Rightarrow> real" where
  "calculateChannelScore st chan context =
     (let score0 = (if urgencyScore context \<ge> urgency (thresholds chan)
                    then fadd 0 (tenths 3) else 0);
          score1 =
            (case lastResponse context of
               None \<Rightarrow> score0
             | Some r \<Rightarrow> if rm_sentiment r \<ge> sentiment (thresholds chan)
                         then fadd score0 (tenths 2) else score0);
          score2 = (if engagementScore context \<ge> engagement (thresholds chan)
                    then fadd score1 (tenths 2) else score1);
          channelHistory = getChannelHistory st (customer_id (customer context)) (ctype chan)
      in if length channelHistory > 0
         then (let successRate = fdiv (real (length (filter wasSuccessful channelHistory)))
                                      (real (length channelHistory))
               in fadd score2 (fmul successRate (tenths 3)))
         else score2)"

definition channel_total_score ::
  "'m Coordinator \<Rightarrow> EscalationContext \<Rightarrow> ChannelConfig \<Rightarrow> real" where
  "channel_total_score st context chan =
     fadd (calculateChannelScore st chan context)
          (or_default (ctx_channelEffectiveness context (ctype chan)) 0)"

text \<open>
  \<open>scores.sort((a, b) => b.score - a.score)[0].channel\<close>: the sort is stable and descending;
  on an empty catalog \<open>[0]\<close> is \<open>undefined\<close> and reading \<open>.channel\<close> throws.
\<close>

definition selectOptimalChannel ::
  "'m Coordinator \<Rightarrow> EscalationContext \<Rightarrow> CommunicationFlow \<Rightarrow> error + ChannelConfig" where
  "selectOptimalChannel st context flow =
     (let scores = map (\<lambda>chan. (chan, channel_total_score st context chan)) (channels flow)
      in case sort_key (\<lambda>(chan, score). - score) scores of
           [] \<Rightarrow> Inl TypeError
         | (chan, score) # rest \<Rightarrow> Inr chan)"

definition buildEscalationContext ::
  "'m Coordinator \<Rightarrow> Customer \<Rightarrow> CustomerDocument \<Rightarrow> ResponseMetrics list \<Rightarrow> EscalationContext" where
  "buildEscalationContext st cust doc history =
     \<lparr> customer = cust, document = doc,
       attempts = length history,
       lastResponse = (if history = [] then None else Some (last history)),
       urgencyScore = calculateUrgencyScore doc,
       engagementScore = calculateEngagementScore cust history,
       ctx_channelEffectiveness = getChannelEffectiveness st (customer_id cust) \<rparr>"

subsection \<open>Follow-up scheduling\<close>

text \<open>
  \<open>flow.channels.find(c => c.type === fallback)\<close> compares the type's name with the
  configured string; an empty fallback string is falsy. \<open>flow.channels[i] || flow.channels[0]\<close>
  is \<open>undefined\<close> (here \<open>None\<close>) on an empty catalog only.
\<close>

fun findIndex :: "('a \<Rightarrow> bool) \<Rightarrow> 'a list \<Rightarrow> int" where
  "findIndex P [] = - 1"
| "findIndex P (x # xs) =
     (if P x then 0 else (let i = findIndex P xs in if i < 0 then - 1 else i + 1))"

definition at_index :: "'a list \<Rightarrow> int \<Rightarrow> 'a option" where
  "at_index xs i = (if 0 \<le> i \<and> i < int (length xs) then Some (xs ! nat i) else None)"

definition determineNextChannel ::
  "CommunicationFlow \<Rightarrow> ChannelConfig \<Rightarrow> EscalationContext \<Rightarrow> ChannelConfig option" where
  "determineNextChannel flow currentChannel context =
     (let fallbackConfig =
            (case fallbackChannel currentChannel of
               None \<Rightarrow> None
             | Some fb \<Rightarrow> if fb = [] then None
                          else find (\<lambda>c. type_name (ctype c) = fb) (channels flow))
      in case fallbackConfig of
           Some c \<Rightarrow> Some c
         | None \<Rightarrow>
             (let nextChannelIndex =
                    findIndex (\<lambda>c. ctype c = ctype currentChannel) (channels flow) + 1
              in case at_index (channels flow) nextChannelIndex of
                   Some c \<Rightarrow> Some c
                 | None \<Rightarrow> at_index (channels flow) 0))"

definition calculateWaitTime :: "ChannelConfig \<Rightarrow> Customer \<Rightarrow> EscalationContext \<Rightarrow> real" where
  "calculateWaitTime chan cust context =
     (let baseWaitTime = waitTime chan;
          urgencyFactor = max 0 (1 - urgencyScore context);
          engagementFactor = max 0.5 (engagementScore context)
      in max (baseWaitTime * urgencyFactor * engagementFactor) (baseWaitTime * 0.25))"

record 'm FollowUp =
  scheduledTime :: real
  fu_channel :: ChannelConfig
  fu_message :: 'm

text \<open>
  \<open>documentProcessor\<close> is the instance that \<open>documentProcessing.ts\<close> exports; its class
  has the methods \<open>processDocument\<close>, \<open>getProcessingStatus\<close> and
  \<open>getProcessingMetrics\<close> and no \<open>analyze\<close>, so \<open>documentProcessor.analyze(document)\<close>
  calls \<open>undefined\<close> and throws for every document.
\<close>

definition documentProcessor_analyze :: "CustomerDocument \<Rightarrow> error + unit" where
  "documentProcessor_analyze doc = Inl TypeError"

text \<open>
  \<open>generateMessage\<close> builds the context in the order of the object literal: it reads
  \<open>channel.type\<close>, which throws on \<open>undefined\<close> (the \<open>None\<close> that
  \<open>determineNextChannel\<close> gives on an empty catalog), then the response rate and time,
  then awaits \<open>documentProcessor.analyze\<close>, and hands the context to the composition
  collaborator only after that. \<open>customer.language || 'en'\<close> takes \<open>'en'\<close> for a missing
  and for an empty language.
\<close>

definition generateMessage ::
  "(Customer \<Rightarrow> CustomerDocument \<Rightarrow> MessageContext \<Rightarrow> 'm) \<Rightarrow> 'm Coordinator \<Rightarrow> Customer
     \<Rightarrow> CustomerDocument \<Rightarrow> ChannelConfig option \<Rightarrow> EscalationContext \<Rightarrow> error + 'm" where
  "generateMessage compose st cust doc chan context =
     (case chan of
        None \<Rightarrow> Inl TypeError
      | Some c \<Rightarrow>
          (let messageContext =
                 \<lparr> previousInteractions = getInteractionHistory st (customer_id cust),
                   preferredChannel = ctype c,
                   preferredLanguage =
                     (case language cust of
                        None \<Rightarrow> ''en'' | Some l \<Rightarrow> if l = [] then ''en'' else l),
                   responseRate = calculateResponseRate st (customer_id cust),
                   typicalResponseTime = calculateAverageResponseTime st (customer_id cust),
                   escalationContext = context \<rparr>
           in case documentProcessor_analyze doc of
                Inl e \<Rightarrow> Inl e
              | Inr documentContext \<Rightarrow> Inr (compose cust doc messageContext)))"

definition scheduleFollowUp ::
  "(Customer \<Rightarrow> CustomerDocument \<Rightarrow> MessageContext \<Rightarrow> 'm) \<Rightarrow> int \<Rightarrow> 'm Coordinator \<Rightarrow> Customer
     \<Rightarrow> CustomerDocument \<Rightarrow> CommunicationFlow \<Rightarrow> ChannelConfig \<Rightarrow> EscalationContext
     \<Rightarrow> error + 'm FollowUp" where
  "scheduleFollowUp compose now st cust doc flow currentChannel context =
     (let nextChannel = determineNextChannel flow currentChannel context;
          wait = calculateWaitTime currentChannel cust context
      in case generateMessage compose st cust doc nextChannel context of
           Inl e \<Rightarrow> Inl e
         | Inr message \<Rightarrow>
             (case nextChannel of
                None \<Rightarrow> Inl TypeError
              | Some next \<Rightarrow>
                  Inr \<lparr> scheduledTime = real_of_int now + wait * 60 * 60 * 1000,
                        fu_channel = next,
                        fu_message = message \<rparr>))"

text \<open>The delivery gateway: the invocation is logged, the reply is the one drawn.\<close>

definition sendMessage ::
  "Response \<Rightarrow> 'm Coordinator \<Rightarrow> ChannelType \<Rightarrow> 'm \<Rightarrow> Response \<times> 'm Coordinator" where
  "sendMessage resp st chanType message = (resp, st\<lparr> sent := sent st @ [(chanType, message)] \<rparr>)"

definition adjustFlow :: "CommunicationFlow \<Rightarrow> EscalationContext \<Rightarrow> Response \<Rightarrow> CommunicationFlow" where
  "adjustFlow flow context response = flow"

subsection \<open>Escalation\<close>

definition handleActiveEscalations ::
  "Customer \<Rightarrow> CustomerDocument \<Rightarrow> EscalationId list \<Rightarrow> Result" where
  "handleActiveEscalations cust doc activeEscalations = Escalated activeEscalations"

definition handleManagerEscalation :: "Customer \<Rightarrow> CustomerDocument \<Rightarrow> EscalationContext \<Rightarrow> Result" where
  "handleManagerEscalation cust doc context = EscalationStatus ''escalated_to_manager'' context"

definition handleHumanIntervention :: "Customer \<Rightarrow> CustomerDocument \<Rightarrow> EscalationContext \<Rightarrow> Result" where
  "handleHumanIntervention cust doc context =
     EscalationStatus ''human_intervention_required'' context"

definition handleUrgentEscalation :: "Customer \<Rightarrow> CustomerDocument \<Rightarrow> EscalationContext \<Rightarrow> Result" where
  "handleUrgentEscalation cust doc context = EscalationStatus ''urgent_escalation'' context"

definition handleChannelSwitch :: "Customer \<Rightarrow> CustomerDocument \<Rightarrow> EscalationContext \<Rightarrow> Result" where
  "handleChannelSwitch cust doc context = EscalationStatus ''channel_switch_required'' context"

definition handleDefaultEscalation :: "Customer \<Rightarrow> CustomerDocument \<Rightarrow> EscalationContext \<Rightarrow> Result" where
  "handleDefaultEscalation cust doc context = EscalationStatus ''default_escalation'' context"

definition handleEscalation ::
  "int \<Rightarrow> 'm Coordinator \<Rightarrow> EscalationRule \<Rightarrow> Customer \<Rightarrow> CustomerDocument \<Rightarrow> EscalationContext
     \<Rightarrow> Result \<times> 'm Coordinator" where
  "handleEscalation now st rule cust doc context =
     (let escalationId = (action rule, now);
          customerEscalations =
            (case escalationHistory st (customer_id cust) of None \<Rightarrow> [] | Some s \<Rightarrow> s);
          st' = st\<lparr> escalationHistory := (escalationHistory st)(customer_id cust \<mapsto>
                      set_add escalationId customerEscalations) \<rparr>
      in if action rule = ''escalate_to_manager''
           then (handleManagerEscalation cust doc context, st')
         else if action rule = ''human_intervention''
           then (handleHumanIntervention cust doc context, st')
         else if action rule = ''urgent_escalation''
           then (handleUrgentEscalation cust doc context, st')
         else if action rule = ''switch_channel''
           then (handleChannelSwitch cust doc context, st')
         else (handleDefaultEscalation cust doc context, st'))"

subsection \<open>The orchestration\<close>

text \<open>
  \<open>rules.filter(...).sort((a, b) => a.priority - b.priority)\<close> is a stable ascending sort
  of the rules whose condition holds. The follow-up that \<open>scheduleFollowUp\<close> returns is
  dropped by the caller; only its throwing is visible.
\<close>

definition executeChannelStrategy ::
  "(Customer \<Rightarrow> CustomerDocument \<Rightarrow> MessageContext \<Rightarrow> 'm) \<Rightarrow> int \<Rightarrow> Response \<Rightarrow> 'm Coordinator
     \<Rightarrow> Customer \<Rightarrow> CustomerDocument \<Rightarrow> ChannelConfig \<Rightarrow> CommunicationFlow \<Rightarrow> EscalationContext
     \<Rightarrow> (error + Result) \<times> 'm Coordinator" where
  "executeChannelStrategy compose now resp st cust doc chan flow context =
     (let activeEscalations =
            (case escalationHistory st (customer_id cust) of None \<Rightarrow> [] | Some s \<Rightarrow> s)
      in if length activeEscalations > 0
         then (Inr (handleActiveEscalations cust doc activeEscalations), st)
         else
           (let applicableRules =
                  sort_key priority
                    (filter (\<lambda>rule. condition rule now context) (escalationRules flow))
            in case applicableRules of
                 rule # others \<Rightarrow>
                   (case handleEscalation now st rule cust doc context of
                      (result, st') \<Rightarrow> (Inr result, st'))
               | [] \<Rightarrow>
                   (case generateMessage compose st cust doc (Some chan) context of
                      Inl e \<Rightarrow> (Inl e, st)
                    | Inr message \<Rightarrow>
                        (case sendMessage resp st (ctype chan) message of
                           (response, st1) \<Rightarrow>
                             (let st2 = trackResponse st1 (customer_id cust)
                                    \<lparr> channel = ctype chan,
                                      responseTime = time response,
                                      rm_sentiment = resp_sentiment response,
                                      wasSuccessful = success response,
                                      rm_engagementScore = engagementScore context,
                                      followUpRequired = (\<not> success response) \<rparr>;
                                  st3 = updateChannelEffectiveness st2 (customer_id cust)
                                    (ctype chan)
                                    (if success response then tenths 1 else - tenths 1);
                                  followUp =
                                    (if \<not> success response
                                     then (case scheduleFollowUp compose now st3 cust doc flow
                                                  chan context of
                                             Inl e \<Rightarrow> Some e
                                           | Inr scheduled \<Rightarrow> None)
                                     else None);
                                  adjusted =
                                    (if enabled (autoAdjustment flow)
                                     then adjustFlow flow context response else flow)
                              in case followUp of
                                   Some e \<Rightarrow> (Inl e, st3)
                                 | None \<Rightarrow> (Inr (Delivered response), st3))))))"

definition initiateFlow ::
  "(Customer \<Rightarrow> CustomerDocument \<Rightarrow> MessageContext \<Rightarrow> 'm) \<Rightarrow> int \<Rightarrow> Response \<Rightarrow> 'm Coordinator
     \<Rightarrow> Customer \<Rightarrow> CustomerDocument \<Rightarrow> string \<Rightarrow> (error + Result) \<times> 'm Coordinator" where
  "initiateFlow compose now resp st cust doc flowType =
     (case flows flowType of
        None \<Rightarrow> (Inl (FlowNotFound flowType), st)
      | Some flow \<Rightarrow>
          (let customerHistory = getCustomerHistory st (customer_id cust);
               context = buildEscalationContext st cust doc customerHistory
           in case selectOptimalChannel st context flow of
                Inl e \<Rightarrow> (Inl e, st)
              | Inr initialChannel \<Rightarrow>
                  executeChannelStrategy compose now resp st cust doc initialChannel flow
                    context))"

subsection \<open>Sequences of orchestration calls\<close>

text \<open>
  The coordinator is a singleton: the calls of a run, for any customers, act on the same
  maps one after the other.
\<close>

record Call =
  call_now :: int
  call_reply :: Response
  call_customer :: Customer
  call_document :: CustomerDocument
  call_flowType :: string

fun run_calls ::
  "(Customer \<Rightarrow> CustomerDocument \<Rightarrow> MessageContext \<Rightarrow> 'm) \<Rightarrow> 'm Coordinator \<Rightarrow> Call list
     \<Rightarrow> 'm Coordinator" where
  "run_calls compose st [] = st"
| "run_calls compose st (c # cs) =
     run_calls compose
       (snd (initiateFlow compose (call_now c) (call_reply c) st (call_customer c)
               (call_document c) (call_flowType c))) cs"

section \<open>Reference definitions of the specification\<close>

text \<open>
  The wait time as the specification writes it:
  \<open>max(baseWaitTime \<times> max(0, 1 - urgency) \<times> max(0.5, engagement), baseWaitTime \<times> 0.25)\<close>.
\<close>

definition wait_time_reference :: "real \<Rightarrow> real \<Rightarrow> real \<Rightarrow> real" where
  "wait_time_reference baseWaitTime urg eng =
     max (baseWaitTime * max 0 (1 - urg) * max 0.5 eng) (baseWaitTime * 0.25)"


text \<open>
  The channel score as the specification writes it, summed in the order of its sentence and
  in the arithmetic of the code: the three threshold bonuses, then 0.3 times the customer's
  success rate on the channel (nothing for a channel with no attempt), then the
  effectiveness bonus, which the specification takes as 0.5 when no value is stored.
\<close>

definition threshold_score :: "ChannelConfig \<Rightarrow> EscalationContext \<Rightarrow> real" where
  "threshold_score chan ctx =
     (let s0 = (if urgencyScore ctx \<ge> urgency (thresholds chan) then fadd 0 (tenths 3) else 0);
          s1 = (case lastResponse ctx of
                  None \<Rightarrow> s0
                | Some r \<Rightarrow> if rm_sentiment r \<ge> sentiment (thresholds chan)
                            then fadd s0 (tenths 2) else s0)
      in if engagementScore ctx \<ge> engagement (thresholds chan) then fadd s1 (tenths 2) else s1)"

definition with_success_rate :: "real \<Rightarrow> ResponseMetrics list \<Rightarrow> real" where
  "with_success_rate score channelHistory =
     (if channelHistory = [] then score
      else fadd score
             (fmul (fdiv (real (length (filter wasSuccessful channelHistory)))
                         (real (length channelHistory)))
                   (tenths 3)))"

definition claimed_total_score ::
  "'m Coordinator \<Rightarrow> EscalationContext \<Rightarrow> ChannelConfig \<Rightarrow> real" where
  "claimed_total_score st ctx chan =
     fadd (with_success_rate (threshold_score chan ctx)
             (getChannelHistory st (customer_id (customer ctx)) (ctype chan)))
          (case ctx_channelEffectiveness ctx (ctype chan) of None \<Rightarrow> 0.5 | Some v \<Rightarrow> v)"

section \<open>Invariants\<close>

text \<open>Every stored effectiveness value lies in \<open>[0, 1]\<close>.\<close>

definition effectiveness_in_unit :: "'m Coordinator \<Rightarrow> bool" where
  "effectiveness_in_unit st \<longleftrightarrow>
     (\<forall>customerId e channelType v.
        channelEffectiveness st customerId = Some e \<longrightarrow> e channelType = Some v
          \<longrightarrow> 0 \<le> v \<and> v \<le> 1)"

section \<open>Example inputs\<close>

definition alice :: Customer where
  "alice = \<lparr> customer_id = ''alice'', language = None \<rparr>"

definition bob :: Customer where
  "bob = \<lparr> customer_id = ''bob'', language = Some ''de'' \<rparr>"

text \<open>A contract due thirty days after time 0, and one that was due at time 0.\<close>

definition contract :: CustomerDocument where
  "contract = \<lparr> doc_id = ''contract'', doc_type = ''Legal'',
                due_date = Some (30 * 24 * 60 * 60 * 1000), reminder_count = None \<rparr>"

definition overdue_contract :: CustomerDocument where
  "overdue_contract = \<lparr> doc_id = ''contract'', doc_type = ''Legal'',
                        due_date = Some 0, reminder_count = None \<rparr>"

definition reply_ok :: Response where
  "reply_ok = \<lparr> success = True, time = 2, resp_sentiment = 0.6 \<rparr>"

definition reply_failed :: Response where
  "reply_failed = \<lparr> success = False, time = 24, resp_sentiment = - 0.2 \<rparr>"

text \<open>A composition collaborator for the examples: the message is the document's id.\<close>

definition example_compose :: "Customer \<Rightarrow> CustomerDocument \<Rightarrow> MessageContext \<Rightarrow> string" where
  "example_compose cust doc mc = doc_id doc"

text \<open>A coordinator in which one escalation is open for \<open>alice\<close>.\<close>

definition escalated_state :: "string Coordinator" where
  "escalated_state =
     \<lparr> responseHistory = Map.empty, channelEffectiveness = Map.empty,
       escalationHistory = [''alice'' \<mapsto> [(''urgent_escalation'', 5)]], sent = [] \<rparr>"

text \<open>The context built for \<open>alice\<close> on a coordinator that has seen no call.\<close>

definition fresh_context :: EscalationContext where
  "fresh_context = buildEscalationContext (initial :: string Coordinator) alice contract []"

text \<open>A flow with two rules that always hold, the one of priority 3 listed first.\<close>

definition two_rule_flow :: CommunicationFlow where
  "two_rule_flow = default_flow \<lparr> escalationRules :=
     [ \<lparr> condition = (\<lambda>now ctx. True), action = ''urgent_escalation'', priority = 3,
         cooldown = None, requiredApproval = None \<rparr>,
       \<lparr> condition = (\<lambda>now ctx. True), action = ''escalate_to_manager'', priority = 1,
         cooldown = None, requiredApproval = None \<rparr> ] \<rparr>"


definition recorded :: "bool \<Rightarrow> ResponseMetrics" where
  "recorded ok = \<lparr> channel = Email, responseTime = 4, rm_sentiment = tenths 6,
                   wasSuccessful = ok, rm_engagementScore = 0.5, followUpRequired = (\<not> ok) \<rparr>"





text \<open>
  A coordinator that holds four failed attempts on email for \<open>alice\<close> and the
  effectiveness 0.1 for email, no value for the other channels; and one with no attempt
  that holds 0.1 for email and 0.4 for sms.
\<close>

definition failing_email_state :: "string Coordinator" where
  "failing_email_state =
     \<lparr> responseHistory =
         [''alice'' \<mapsto> [recorded False, recorded False, recorded False, recorded False]],
       channelEffectiveness = [''alice'' \<mapsto> [Email \<mapsto> tenths 1]],
       escalationHistory = Map.empty,
       sent = [(Email, ''contract''), (Email, ''contract''), (Email, ''contract''),
               (Email, ''contract'')] \<rparr>"

definition failing_email_context :: EscalationContext where
  "failing_email_context = buildEscalationContext failing_email_state alice contract
                    (getCustomerHistory failing_email_state (customer_id alice))"

definition close_scores_state :: "string Coordinator" where
  "close_scores_state =
     \<lparr> responseHistory = Map.empty,
       channelEffectiveness = [''alice'' \<mapsto> [Email \<mapsto> tenths 1, Sms \<mapsto> tenths 4]],
       escalationHistory = Map.empty, sent = [] \<rparr>"

definition close_scores_context :: EscalationContext where
  "close_scores_context = buildEscalationContext close_scores_state alice contract
                    (getCustomerHistory close_scores_state (customer_id alice))"

text \<open>Repeated effectiveness updates, and a store that holds the value 0.\<close>

fun apply_adjustments ::
  "'m Coordinator \<Rightarrow> string \<Rightarrow> ChannelType \<Rightarrow> real list \<Rightarrow> 'm Coordinator" where
  "apply_adjustments st customerId channelType [] = st"
| "apply_adjustments st customerId channelType (a # as) =
     apply_adjustments (updateChannelEffectiveness st customerId channelType a)
       customerId channelType as"


text \<open>A call for \<open>bob\<close>, on a document that is past due.\<close>

definition bob_call :: Call where
  "bob_call = \<lparr> call_now = 15, call_reply = reply_failed, call_customer = bob,
                call_document = overdue_contract, call_flowType = ''default'' \<rparr>"

section \<open>Properties\<close>

subsection \<open>Rounding to the nearest double\<close>

text \<open>
  A real between \<open>2^e\<close> and \<open>2^(e+1)\<close> rounds to \<open>m \<times> 2^(e-52)\<close> for the integer
  \<open>m\<close> nearest to its quotient by \<open>2^(e-52)\<close>, the even one of the two when it is
  halfway. The values below are the roundings that the examples need.
\<close>

lemma binary_exponent_eq:
  assumes "- 1022 \<le> e" "e \<le> 1023" "2 powi e \<le> \<bar>x\<bar>" "\<bar>x\<bar> < 2 powi (e + 1)"
  shows "binary_exponent x = e"
proof -
  have "(2::real) powi (- 1022) \<le> 2 powi e" using assms(1) by (intro power_int_increasing) auto
  with assms(3) have big: "\<not> \<bar>x\<bar> < 2 powi (- 1022)" by linarith
  let ?S = "set (filter (\<lambda>e. 2 powi e \<le> \<bar>x\<bar>) [- 1022..1023])"
  have S: "?S = {y. - 1022 \<le> y \<and> y \<le> 1023 \<and> 2 powi y \<le> \<bar>x\<bar>}"
    by (simp only: set_filter set_upto) auto
  have mem: "e \<in> ?S" unfolding S using assms by simp
  have ub: "\<And>y. y \<in> ?S \<Longrightarrow> y \<le> e"
  proof -
    fix y assume "y \<in> ?S"
    then have "(2::real) powi y \<le> \<bar>x\<bar>" unfolding S by simp
    with assms(4) have "(2::real) powi y < 2 powi (e + 1)" by linarith
    have "\<not> e + 1 \<le> y"
    proof
      assume "e + 1 \<le> y"
      then have "(2::real) powi (e + 1) \<le> 2 powi y" by (intro power_int_increasing) auto
      with \<open>(2::real) powi y < 2 powi (e + 1)\<close> show False by linarith
    qed
    then show "y \<le> e" by simp
  qed
  have "finite ?S" by (rule finite_set)
  then have "Max ?S = e" using mem ub by (intro Max_eqI)
  with big show ?thesis unfolding binary_exponent_def by (simp only: if_False)
qed

lemma round_to_even_nearest:
  assumes "\<bar>r - of_int m\<bar> < 1 / 2"
  shows "round_to_even r = m"
proof -
  have f: "\<lfloor>r\<rfloor> = m \<or> \<lfloor>r\<rfloor> = m - 1" using assms by linarith
  then show ?thesis
  proof
    assume a: "\<lfloor>r\<rfloor> = m"
    then have "r - of_int m < 1 / 2" using assms by linarith
    with a show ?thesis by (simp add: round_to_even_def Let_def)
  next
    assume a: "\<lfloor>r\<rfloor> = m - 1"
    then have "r - of_int (m - 1) > 1 / 2" using assms by (simp; linarith)
    with a show ?thesis by (simp add: round_to_even_def Let_def)
  qed
qed

lemma round_to_even_tie:
  assumes "r = of_int m + 1 / 2"
  shows "round_to_even r = (if even m then m else m + 1)"
proof -
  have "\<lfloor>r\<rfloor> = m" using assms by linarith
  with assms show ?thesis by (simp add: round_to_even_def Let_def)
qed

lemma round_double_nearest:
  assumes "- 1022 \<le> e" "e \<le> 1023" "2 powi e \<le> \<bar>x\<bar>" "\<bar>x\<bar> < 2 powi (e + 1)"
    and "\<bar>x / 2 powi (e - 52) - of_int m\<bar> < 1 / 2"
  shows "round_double x = of_int m * 2 powi (e - 52)"
  using binary_exponent_eq [OF assms(1-4)] round_to_even_nearest [OF assms(5)]
  by (simp add: round_double_def ulp_def)

lemma round_double_tie_even:
  assumes "- 1022 \<le> e" "e \<le> 1023" "2 powi e \<le> \<bar>x\<bar>" "\<bar>x\<bar> < 2 powi (e + 1)"
    and "x / 2 powi (e - 52) = of_int m + 1 / 2" and "even m"
  shows "round_double x = of_int m * 2 powi (e - 52)"
  using binary_exponent_eq [OF assms(1-4)] round_to_even_tie [OF assms(5)] assms(6)
  by (simp add: round_double_def ulp_def)

lemma round_double_tie_odd:
  assumes "- 1022 \<le> e" "e \<le> 1023" "2 powi e \<le> \<bar>x\<bar>" "\<bar>x\<bar> < 2 powi (e + 1)"
    and "x / 2 powi (e - 52) = of_int (m - 1) + 1 / 2" and "odd (m - 1)"
  shows "round_double x = of_int m * 2 powi (e - 52)"
  using binary_exponent_eq [OF assms(1-4)] round_to_even_tie [OF assms(5)] assms(6)
  by (simp add: round_double_def ulp_def)

lemma round_double_0 [simp]: "round_double 0 = 0"
  by (simp add: round_double_def round_to_even_def)


lemma round_double_value_1: "round_double (- (3602879701896397 / 36028797018963968)) = - (3602879701896397 / 36028797018963968)"
proof -
  have "round_double (- (3602879701896397 / 36028797018963968)) = of_int (- 7205759403792794) * 2 powi (- 4 - 52)"
    by (rule round_double_nearest) (simp_all add: power_int_minus_divide)
  then show ?thesis by (simp add: power_int_minus_divide)
qed

lemma round_double_value_2: "round_double (- (900719925474099 / 9007199254740992)) = - (900719925474099 / 9007199254740992)"
proof -
  have "round_double (- (900719925474099 / 9007199254740992)) = of_int (- 7205759403792792) * 2 powi (- 4 - 52)"
    by (rule round_double_nearest) (simp_all add: power_int_minus_divide)
  then show ?thesis by (simp add: power_int_minus_divide)
qed

lemma round_double_value_3: "round_double (1 / 36028797018963968) = 1 / 36028797018963968"
proof -
  have "round_double (1 / 36028797018963968) = of_int (4503599627370496) * 2 powi (- 55 - 52)"
    by (rule round_double_nearest) (simp_all add: power_int_minus_divide)
  then show ?thesis by (simp add: power_int_minus_divide)
qed

lemma round_double_value_4: "round_double (1 / 10) = 3602879701896397 / 36028797018963968"
proof -
  have "round_double (1 / 10) = of_int (7205759403792794) * 2 powi (- 4 - 52)"
    by (rule round_double_nearest) (simp_all add: power_int_minus_divide)
  then show ?thesis by (simp add: power_int_minus_divide)
qed

lemma round_double_value_5: "round_double (3602879701896397 / 36028797018963968) = 3602879701896397 / 36028797018963968"
proof -
  have "round_double (3602879701896397 / 36028797018963968) = of_int (7205759403792794) * 2 powi (- 4 - 52)"
    by (rule round_double_nearest) (simp_all add: power_int_minus_divide)
  then show ?thesis by (simp add: power_int_minus_divide)
qed

lemma round_double_value_6: "round_double (1801439850948199 / 18014398509481984) = 1801439850948199 / 18014398509481984"
proof -
  have "round_double (1801439850948199 / 18014398509481984) = of_int (7205759403792796) * 2 powi (- 4 - 52)"
    by (rule round_double_nearest) (simp_all add: power_int_minus_divide)
  then show ?thesis by (simp add: power_int_minus_divide)
qed

lemma round_double_value_7: "round_double (1 / 5) = 3602879701896397 / 18014398509481984"
proof -
  have "round_double (1 / 5) = of_int (7205759403792794) * 2 powi (- 3 - 52)"
    by (rule round_double_nearest) (simp_all add: power_int_minus_divide)
  then show ?thesis by (simp add: power_int_minus_divide)
qed

lemma round_double_value_8: "round_double (3602879701896397 / 18014398509481984) = 3602879701896397 / 18014398509481984"
proof -
  have "round_double (3602879701896397 / 18014398509481984) = of_int (7205759403792794) * 2 powi (- 3 - 52)"
    by (rule round_double_nearest) (simp_all add: power_int_minus_divide)
  then show ?thesis by (simp add: power_int_minus_divide)
qed

lemma round_double_value_9: "round_double (7205759403792795 / 36028797018963968) = 7205759403792795 / 36028797018963968"
proof -
  have "round_double (7205759403792795 / 36028797018963968) = of_int (7205759403792795) * 2 powi (- 3 - 52)"
    by (rule round_double_nearest) (simp_all add: power_int_minus_divide)
  then show ?thesis by (simp add: power_int_minus_divide)
qed

lemma round_double_value_10: "round_double (5404319552844595 / 18014398509481984) = 5404319552844595 / 18014398509481984"
proof -
  have "round_double (5404319552844595 / 18014398509481984) = of_int (5404319552844595) * 2 powi (- 2 - 52)"
    by (rule round_double_nearest) (simp_all add: power_int_minus_divide)
  then show ?thesis by (simp add: power_int_minus_divide)
qed

lemma round_double_value_11: "round_double (3 / 10) = 5404319552844595 / 18014398509481984"
proof -
  have "round_double (3 / 10) = of_int (5404319552844595) * 2 powi (- 2 - 52)"
    by (rule round_double_nearest) (simp_all add: power_int_minus_divide)
  then show ?thesis by (simp add: power_int_minus_divide)
qed

lemma round_double_value_12: "round_double (10808639105689191 / 36028797018963968) = 1351079888211149 / 4503599627370496"
proof -
  have "round_double (10808639105689191 / 36028797018963968) = of_int (5404319552844596) * 2 powi (- 2 - 52)"
    by (rule round_double_tie_odd) (simp_all add: power_int_minus_divide)
  then show ?thesis by (simp add: power_int_minus_divide)
qed

lemma round_double_value_13: "round_double (14411518807585587 / 36028797018963968) = 3602879701896397 / 9007199254740992"
proof -
  have "round_double (14411518807585587 / 36028797018963968) = of_int (7205759403792794) * 2 powi (- 2 - 52)"
    by (rule round_double_tie_odd) (simp_all add: power_int_minus_divide)
  then show ?thesis by (simp add: power_int_minus_divide)
qed

lemma round_double_value_14: "round_double (2 / 5) = 3602879701896397 / 9007199254740992"
proof -
  have "round_double (2 / 5) = of_int (7205759403792794) * 2 powi (- 2 - 52)"
    by (rule round_double_nearest) (simp_all add: power_int_minus_divide)
  then show ?thesis by (simp add: power_int_minus_divide)
qed

lemma round_double_value_15: "round_double (3602879701896397 / 9007199254740992) = 3602879701896397 / 9007199254740992"
proof -
  have "round_double (3602879701896397 / 9007199254740992) = of_int (7205759403792794) * 2 powi (- 2 - 52)"
    by (rule round_double_nearest) (simp_all add: power_int_minus_divide)
  then show ?thesis by (simp add: power_int_minus_divide)
qed

lemma round_double_value_16: "round_double (1 / 2) = 1 / 2"
proof -
  have "round_double (1 / 2) = of_int (4503599627370496) * 2 powi (- 1 - 52)"
    by (rule round_double_nearest) (simp_all add: power_int_minus_divide)
  then show ?thesis by (simp add: power_int_minus_divide)
qed

lemma round_double_value_17: "round_double (3 / 5) = 5404319552844595 / 9007199254740992"
proof -
  have "round_double (3 / 5) = of_int (5404319552844595) * 2 powi (- 1 - 52)"
    by (rule round_double_nearest) (simp_all add: power_int_minus_divide)
  then show ?thesis by (simp add: power_int_minus_divide)
qed

lemma round_double_value_18: "round_double (21617278211378381 / 36028797018963968) = 5404319552844595 / 9007199254740992"
proof -
  have "round_double (21617278211378381 / 36028797018963968) = of_int (5404319552844595) * 2 powi (- 1 - 52)"
    by (rule round_double_nearest) (simp_all add: power_int_minus_divide)
  then show ?thesis by (simp add: power_int_minus_divide)
qed

lemma round_double_value_19: "round_double (10808639105689191 / 18014398509481984) = 1351079888211149 / 2251799813685248"
proof -
  have "round_double (10808639105689191 / 18014398509481984) = of_int (5404319552844596) * 2 powi (- 1 - 52)"
    by (rule round_double_tie_odd) (simp_all add: power_int_minus_divide)
  then show ?thesis by (simp add: power_int_minus_divide)
qed

lemma round_double_value_20: "round_double (3152519739159347 / 4503599627370496) = 3152519739159347 / 4503599627370496"
proof -
  have "round_double (3152519739159347 / 4503599627370496) = of_int (6305039478318694) * 2 powi (- 1 - 52)"
    by (rule round_double_nearest) (simp_all add: power_int_minus_divide)
  then show ?thesis by (simp add: power_int_minus_divide)
qed

lemma round_double_value_21: "round_double (7 / 10) = 3152519739159347 / 4503599627370496"
proof -
  have "round_double (7 / 10) = of_int (6305039478318694) * 2 powi (- 1 - 52)"
    by (rule round_double_nearest) (simp_all add: power_int_minus_divide)
  then show ?thesis by (simp add: power_int_minus_divide)
qed

lemma round_double_value_22: "round_double (12610078956637389 / 18014398509481984) = 3152519739159347 / 4503599627370496"
proof -
  have "round_double (12610078956637389 / 18014398509481984) = of_int (6305039478318694) * 2 powi (- 1 - 52)"
    by (rule round_double_tie_even) (simp_all add: power_int_minus_divide)
  then show ?thesis by (simp add: power_int_minus_divide)
qed

lemma round_double_value_23: "round_double (28823037615171173 / 36028797018963968) = 7205759403792793 / 9007199254740992"
proof -
  have "round_double (28823037615171173 / 36028797018963968) = of_int (7205759403792793) * 2 powi (- 1 - 52)"
    by (rule round_double_nearest) (simp_all add: power_int_minus_divide)
  then show ?thesis by (simp add: power_int_minus_divide)
qed

lemma round_double_value_24: "round_double (4 / 5) = 3602879701896397 / 4503599627370496"
proof -
  have "round_double (4 / 5) = of_int (7205759403792794) * 2 powi (- 1 - 52)"
    by (rule round_double_nearest) (simp_all add: power_int_minus_divide)
  then show ?thesis by (simp add: power_int_minus_divide)
qed

lemma round_double_value_25: "round_double (9 / 10) = 8106479329266893 / 9007199254740992"
proof -
  have "round_double (9 / 10) = of_int (8106479329266893) * 2 powi (- 1 - 52)"
    by (rule round_double_nearest) (simp_all add: power_int_minus_divide)
  then show ?thesis by (simp add: power_int_minus_divide)
qed

lemma round_double_value_26: "round_double (8106479329266893 / 9007199254740992) = 8106479329266893 / 9007199254740992"
proof -
  have "round_double (8106479329266893 / 9007199254740992) = of_int (8106479329266893) * 2 powi (- 1 - 52)"
    by (rule round_double_nearest) (simp_all add: power_int_minus_divide)
  then show ?thesis by (simp add: power_int_minus_divide)
qed

lemma round_double_value_27: "round_double (5404319552844595 / 4503599627370496) = 5404319552844595 / 4503599627370496"
proof -
  have "round_double (5404319552844595 / 4503599627370496) = of_int (5404319552844595) * 2 powi (0 - 52)"
    by (rule round_double_nearest) (simp_all add: power_int_minus_divide)
  then show ?thesis by (simp add: power_int_minus_divide)
qed

lemma round_double_value_28: "round_double (6 / 5) = 5404319552844595 / 4503599627370496"
proof -
  have "round_double (6 / 5) = of_int (5404319552844595) * 2 powi (0 - 52)"
    by (rule round_double_nearest) (simp_all add: power_int_minus_divide)
  then show ?thesis by (simp add: power_int_minus_divide)
qed

lemmas double_values =
  round_double_value_1 round_double_value_2 round_double_value_3 round_double_value_4
  round_double_value_5 round_double_value_6 round_double_value_7 round_double_value_8
  round_double_value_9 round_double_value_10 round_double_value_11 round_double_value_12
  round_double_value_13 round_double_value_14 round_double_value_15 round_double_value_16
  round_double_value_17 round_double_value_18 round_double_value_19 round_double_value_20
  round_double_value_21 round_double_value_22 round_double_value_23 round_double_value_24
  round_double_value_25 round_double_value_26 round_double_value_27 round_double_value_28

lemma tenths_values:
  "tenths 1 = 3602879701896397 / 36028797018963968"
  "tenths 2 = 3602879701896397 / 18014398509481984"
  "tenths 3 = 5404319552844595 / 18014398509481984"
  "tenths 4 = 3602879701896397 / 9007199254740992"
  "tenths 6 = 5404319552844595 / 9007199254740992"
  "tenths 7 = 3152519739159347 / 4503599627370496"
  "tenths 8 = 3602879701896397 / 4503599627370496"
  "tenths 9 = 8106479329266893 / 9007199254740992"
  "tenths 12 = 5404319552844595 / 4503599627370496"
  by (simp_all add: tenths_def double_values)

subsection \<open>Lists, indices and the stable sort\<close>

lemma findIndex_first:
  "i < length xs \<Longrightarrow> P (xs ! i) \<Longrightarrow> (\<forall>j<i. \<not> P (xs ! j)) \<Longrightarrow> findIndex P xs = int i"
proof (induction xs arbitrary: i)
  case Nil
  then show ?case by simp
next
  case (Cons x xs)
  show ?case
  proof (cases i)
    case 0
    with Cons.prems show ?thesis by simp
  next
    case (Suc k)
    from Cons.prems Suc have nx: "\<not> P x" by auto
    from Cons.prems Suc have "k < length xs" "P (xs ! k)" "\<forall>j<k. \<not> P (xs ! j)" by auto
    then have "findIndex P xs = int k" by (rule Cons.IH)
    with nx Suc show ?thesis by simp
  qed
qed

lemma at_index_nat: "at_index xs (int i) = (if i < length xs then Some (xs ! i) else None)"
  by (simp add: at_index_def)

lemma at_index_succ:
  "at_index xs (int i + 1) = (if Suc i < length xs then Some (xs ! Suc i) else None)"
proof -
  have "int i + 1 = int (Suc i)" by simp
  then show ?thesis by (simp only: at_index_nat)
qed

lemma type_name_nonempty: "type_name a \<noteq> []"
  by (cases a) simp_all

lemma hd_insort_key:
  "hd (insort_key f x ys) = (if ys = [] \<or> f x \<le> f (hd ys) then x else hd ys)"
  by (cases ys) auto

lemma sort_key_Nil_iff: "sort_key f xs = [] \<longleftrightarrow> xs = []"
  by (metis length_sort list.size(3) length_0_conv)

lemma hd_sort_key_first_min:
  "xs \<noteq> [] \<Longrightarrow>
     \<exists>i<length xs. hd (sort_key f xs) = xs ! i
        \<and> (\<forall>j<length xs. f (xs ! i) \<le> f (xs ! j))
        \<and> (\<forall>j<i. f (xs ! i) < f (xs ! j))"
proof (induction xs)
  case Nil
  then show ?case by simp
next
  case (Cons x xs)
  show ?case
  proof (cases "xs = []")
    case True
    then show ?thesis by simp
  next
    case False
    from Cons.IH [OF False] obtain i where i: "i < length xs"
      and h: "hd (sort_key f xs) = xs ! i"
      and least: "\<forall>j<length xs. f (xs ! i) \<le> f (xs ! j)"
      and first: "\<forall>j<i. f (xs ! i) < f (xs ! j)" by blast
    have ne: "sort_key f xs \<noteq> []" using False by (simp add: sort_key_Nil_iff)
    have hd_eq: "hd (sort_key f (x # xs)) = (if f x \<le> f (xs ! i) then x else xs ! i)"
      using ne h by (simp add: hd_insort_key)
    show ?thesis
    proof (cases "f x \<le> f (xs ! i)")
      case True
      have "\<forall>j<length (x # xs). f ((x # xs) ! 0) \<le> f ((x # xs) ! j)"
      proof (intro allI impI)
        fix j assume j: "j < length (x # xs)"
        show "f ((x # xs) ! 0) \<le> f ((x # xs) ! j)"
        proof (cases j)
          case 0
          then show ?thesis by simp
        next
          case (Suc k)
          with j have "k < length xs" by simp
          with least have "f (xs ! i) \<le> f (xs ! k)" by blast
          with True Suc show ?thesis by simp
        qed
      qed
      moreover have "hd (sort_key f (x # xs)) = (x # xs) ! 0" using hd_eq True by simp
      ultimately show ?thesis by (intro exI [of _ 0]) simp
    next
      case gt: False
      have a: "hd (sort_key f (x # xs)) = (x # xs) ! Suc i" using hd_eq gt by simp
      have b: "\<forall>j<length (x # xs). f ((x # xs) ! Suc i) \<le> f ((x # xs) ! j)"
      proof (intro allI impI)
        fix j assume j: "j < length (x # xs)"
        show "f ((x # xs) ! Suc i) \<le> f ((x # xs) ! j)"
        proof (cases j)
          case 0
          with gt show ?thesis by simp
        next
          case (Suc k)
          with j have "k < length xs" by simp
          with least Suc show ?thesis by simp
        qed
      qed
      have c: "\<forall>j<Suc i. f ((x # xs) ! Suc i) < f ((x # xs) ! j)"
      proof (intro allI impI)
        fix j assume j: "j < Suc i"
        show "f ((x # xs) ! Suc i) < f ((x # xs) ! j)"
        proof (cases j)
          case 0
          with gt show ?thesis by simp
        next
          case (Suc k)
          with j have "k < i" by simp
          with first Suc show ?thesis by simp
        qed
      qed
      from i a b c show ?thesis by (intro exI [of _ "Suc i"]) simp
    qed
  qed
qed

lemma selectOptimalChannel_index:
  assumes "channels flow \<noteq> []"
  shows "\<exists>i<length (channels flow).
           selectOptimalChannel st context flow = Inr (channels flow ! i)
         \<and> (\<forall>j<length (channels flow).
               channel_total_score st context (channels flow ! j)
                 \<le> channel_total_score st context (channels flow ! i))
         \<and> (\<forall>j<i. channel_total_score st context (channels flow ! j)
                 < channel_total_score st context (channels flow ! i))"
proof -
  let ?cs = "channels flow"
  let ?scores = "map (\<lambda>chan. (chan, channel_total_score st context chan)) ?cs"
  let ?key = "\<lambda>(chan :: ChannelConfig, score :: real). - score"
  have ne: "?scores \<noteq> []" using assms by simp
  from hd_sort_key_first_min [OF ne, of ?key] obtain i where i: "i < length ?scores"
    and h: "hd (sort_key ?key ?scores) = ?scores ! i"
    and least: "\<forall>j<length ?scores. ?key (?scores ! i) \<le> ?key (?scores ! j)"
    and first: "\<forall>j<i. ?key (?scores ! i) < ?key (?scores ! j)" by blast
  have i': "i < length ?cs" using i by simp
  have sne: "sort_key ?key ?scores \<noteq> []" using ne by (simp only: sort_key_Nil_iff not_False_eq_True)
  then obtain p rest where p: "sort_key ?key ?scores = p # rest" by (cases "sort_key ?key ?scores") auto
  with h have "p = ?scores ! i" by simp
  with i' have "p = (?cs ! i, channel_total_score st context (?cs ! i))" by simp
  with p have sel: "selectOptimalChannel st context flow = Inr (?cs ! i)"
    by (simp add: selectOptimalChannel_def)
  have l: "\<forall>j<length ?cs. channel_total_score st context (?cs ! j)
             \<le> channel_total_score st context (?cs ! i)"
  proof (intro allI impI)
    fix j assume j: "j < length ?cs"
    with least have "?key (?scores ! i) \<le> ?key (?scores ! j)" by simp
    with i' j show "channel_total_score st context (?cs ! j)
             \<le> channel_total_score st context (?cs ! i)" by simp
  qed
  have f: "\<forall>j<i. channel_total_score st context (?cs ! j)
             < channel_total_score st context (?cs ! i)"
  proof (intro allI impI)
    fix j assume j: "j < i"
    with first have "?key (?scores ! i) < ?key (?scores ! j)" by simp
    with i' j show "channel_total_score st context (?cs ! j)
             < channel_total_score st context (?cs ! i)" by simp
  qed
  from i' sel l f show ?thesis by blast
qed

subsection \<open>Facts about the example inputs\<close>

lemma default_channels_nth:
  "default_channels ! 0 = email_channel" "default_channels ! Suc 0 = whatsapp_channel"
  "default_channels ! 2 = phone_channel" "default_channels ! 3 = sms_channel"
  "default_channels ! 4 = portal_channel" "length default_channels = 5"
  by (simp_all add: default_channels_def)

lemma channel_ctypes:
  "ctype email_channel = Email" "ctype whatsapp_channel = Whatsapp"
  "ctype phone_channel = Phone" "ctype sms_channel = Sms" "ctype portal_channel = Portal"
  by (simp_all add: email_channel_def whatsapp_channel_def phone_channel_def sms_channel_def
      portal_channel_def)
lemma fresh_context_simps:
  "attempts fresh_context = 0" "urgencyScore fresh_context = 0.5"
  "engagementScore fresh_context = 0.5" "lastResponse fresh_context = None"
  "ctx_channelEffectiveness fresh_context = Map.empty"
  "document fresh_context = contract" "customer fresh_context = alice"
  by (simp_all add: fresh_context_def buildEscalationContext_def calculateUrgencyScore_def
      calculateEngagementScore_def getChannelEffectiveness_def initial_def)

lemma fresh_matching_rules:
  "filter (\<lambda>rule. condition rule 0 fresh_context) default_rules = [default_rules ! 4]"
  by (simp add: default_rules_def fresh_context_simps contract_def math_max_lt_def
      object_values_def all_channel_types_def map_filter_simps)

lemma fresh_select:
  "selectOptimalChannel (initial :: string Coordinator) fresh_context default_flow
     = Inr email_channel"
  by (simp add: selectOptimalChannel_def default_flow_def default_channels_def
      channel_total_score_def calculateChannelScore_def fresh_context_simps
      getChannelHistory_def getInteractionHistory_def initial_def alice_def
      email_channel_def whatsapp_channel_def phone_channel_def sms_channel_def
      portal_channel_def Let_def fadd_def tenths_values double_values)

subsection \<open>Open escalations\<close>

lemma execute_open_escalation:
  assumes "escalationHistory st (customer_id cust) = Some ids" and "ids \<noteq> []"
  shows "executeChannelStrategy compose now resp st cust doc chan flow context
           = (Inr (Escalated ids), st)"
  using assms by (simp add: executeChannelStrategy_def handleActiveEscalations_def)

lemma selectOptimalChannel_total:
  "channels flow \<noteq> [] \<Longrightarrow> \<exists>c. selectOptimalChannel st context flow = Inr c"
  using selectOptimalChannel_index [of flow st "context"] by blast

lemma flows_channels: "flows flowType = Some flow \<Longrightarrow> channels flow \<noteq> []"
  by (auto simp: flows_def default_flow_def default_channels_def split: if_splits)

lemma initiateFlow_open_escalation:
  assumes "escalationHistory st (customer_id cust) = Some ids" and "ids \<noteq> []"
    and "flows flowType = Some flow"
  shows "initiateFlow compose now resp st cust doc flowType = (Inr (Escalated ids), st)"
proof -
  let ?ctx = "buildEscalationContext st cust doc (getCustomerHistory st (customer_id cust))"
  from flows_channels [OF assms(3)] obtain c
    where "selectOptimalChannel st ?ctx flow = Inr c"
    using selectOptimalChannel_total by blast
  with assms(3) execute_open_escalation [OF assms(1,2)] show ?thesis
    by (simp add: initiateFlow_def Let_def)
qed

lemma handleEscalation_other:
  "customer_id cust \<noteq> cid \<Longrightarrow>
     escalationHistory (snd (handleEscalation now st rule cust doc context)) cid
       = escalationHistory st cid"
  by (simp add: handleEscalation_def Let_def)

lemma updateChannelEffectiveness_escalationHistory:
  "escalationHistory (updateChannelEffectiveness st c t a) = escalationHistory st"
  by (simp add: updateChannelEffectiveness_def Let_def)

lemma trackResponse_escalationHistory:
  "escalationHistory (trackResponse st c m) = escalationHistory st"
  by (simp add: trackResponse_def Let_def)

lemma execute_other:
  assumes "customer_id cust \<noteq> cid"
  shows "escalationHistory
           (snd (executeChannelStrategy compose now resp st cust doc chan flow context)) cid
         = escalationHistory st cid"
proof -
  have h: "\<And>rule r s. handleEscalation now st rule cust doc context = (r, s) \<Longrightarrow>
       escalationHistory s cid = escalationHistory st cid"
    using handleEscalation_other [OF assms] by (metis snd_conv)
  show ?thesis
    unfolding executeChannelStrategy_def Let_def
    using h
    by (auto simp: sendMessage_def updateChannelEffectiveness_escalationHistory
        trackResponse_escalationHistory
        split: list.splits sum.splits option.splits prod.splits)
qed

lemma initiateFlow_other:
  assumes "customer_id cust \<noteq> cid"
  shows "escalationHistory (snd (initiateFlow compose now resp st cust doc flowType)) cid
         = escalationHistory st cid"
  using execute_other [OF assms]
  by (auto simp: initiateFlow_def Let_def split: option.splits sum.splits)

lemma initiateFlow_keeps_open:
  assumes "escalationHistory st cid = Some ids" and "ids \<noteq> []"
  shows "escalationHistory (snd (initiateFlow compose now resp st cust doc flowType)) cid
         = Some ids"
proof (cases "customer_id cust = cid")
  case True
  show ?thesis
  proof (cases "flows flowType")
    case None
    then show ?thesis using assms by (simp add: initiateFlow_def)
  next
    case (Some flow)
    from assms True have "escalationHistory st (customer_id cust) = Some ids" by simp
    from initiateFlow_open_escalation [OF this assms(2) Some] assms(1)
    show ?thesis by simp
  qed
next
  case False
  then show ?thesis using assms(1) by (simp add: initiateFlow_other)
qed

lemma run_calls_keeps_open:
  "escalationHistory st cid = Some ids \<Longrightarrow> ids \<noteq> [] \<Longrightarrow>
     escalationHistory (run_calls compose st calls) cid = Some ids"
proof (induction calls arbitrary: st)
  case Nil
  then show ?case by simp
next
  case (Cons c calls)
  from initiateFlow_keeps_open [OF Cons.prems]
  have "escalationHistory (snd (initiateFlow compose (call_now c) (call_reply c) st
          (call_customer c) (call_document c) (call_flowType c))) cid = Some ids" .
  from Cons.IH [OF this Cons.prems(2)] show ?case by simp
qed

text \<open>
  Claim C1. When at least one escalation id is recorded for a customer, a call of
  \<open>executeChannelStrategy\<close>, and a call of \<open>initiateFlow\<close> for a flow type of the
  catalog, returns the status \<open>escalated\<close> with the list of the open ids and leaves
  the coordinator as it was: the log \<open>sent\<close> of the delivery gateway does not grow and
  no attempt is recorded. No call, for this or for any other customer, removes the ids, so
  after any run of further calls the entry is the same and a call for the customer is
  short-circuited in the same way.
\<close>

theorem open_escalation_short_circuits:
  assumes "escalationHistory st (customer_id cust) = Some ids" and "ids \<noteq> []"
  shows "executeChannelStrategy compose now resp st cust doc chan flow ctx
           = (Inr (Escalated ids), st)
       \<and> (flowType \<in> dom flows \<longrightarrow>
            initiateFlow compose now resp st cust doc flowType = (Inr (Escalated ids), st))
       \<and> (customer_id cust' = customer_id cust \<longrightarrow>
            (let st' = run_calls compose st calls
             in escalationHistory st' (customer_id cust) = Some ids
              \<and> executeChannelStrategy compose now' resp' st' cust' doc' chan' flow' ctx'
                  = (Inr (Escalated ids), st')
              \<and> (flowType \<in> dom flows \<longrightarrow>
                   initiateFlow compose now' resp' st' cust' doc' flowType
                     = (Inr (Escalated ids), st'))))"
proof (intro conjI impI)
  show "executeChannelStrategy compose now resp st cust doc chan flow ctx
           = (Inr (Escalated ids), st)"
    using assms by (rule execute_open_escalation)
next
  assume "flowType \<in> dom flows"
  then obtain fl where "flows flowType = Some fl" by blast
  with assms show "initiateFlow compose now resp st cust doc flowType = (Inr (Escalated ids), st)"
    by (intro initiateFlow_open_escalation)
next
  assume same: "customer_id cust' = customer_id cust"
  let ?st = "run_calls compose st calls"
  have kept: "escalationHistory ?st (customer_id cust') = Some ids"
    using run_calls_keeps_open [OF assms] same by simp
  have a: "executeChannelStrategy compose now' resp' ?st cust' doc' chan' flow' ctx'
                  = (Inr (Escalated ids), ?st)"
    using kept assms(2) by (rule execute_open_escalation)
  have b: "flowType \<in> dom flows \<longrightarrow>
                   initiateFlow compose now' resp' ?st cust' doc' flowType
                     = (Inr (Escalated ids), ?st)"
  proof
    assume "flowType \<in> dom flows"
    then obtain fl where "flows flowType = Some fl" by blast
    with kept assms(2) show "initiateFlow compose now' resp' ?st cust' doc' flowType
                     = (Inr (Escalated ids), ?st)"
      by (intro initiateFlow_open_escalation)
  qed
  from kept a b same show "let st' = run_calls compose st calls
             in escalationHistory st' (customer_id cust) = Some ids
              \<and> executeChannelStrategy compose now' resp' st' cust' doc' chan' flow' ctx'
                  = (Inr (Escalated ids), st')
              \<and> (flowType \<in> dom flows \<longrightarrow>
                   initiateFlow compose now' resp' st' cust' doc' flowType
                     = (Inr (Escalated ids), st'))"
    by (simp add: Let_def)
qed

theorem open_escalation_short_circuits_witness:
  "escalationHistory escalated_state (customer_id alice) = Some [(''urgent_escalation'', 5)]
   \<and> [(''urgent_escalation'', 5 :: int)] \<noteq> []
   \<and> ''default'' \<in> dom flows
   \<and> executeChannelStrategy example_compose 10 reply_ok escalated_state alice contract
         email_channel default_flow fresh_context
       = (Inr (Escalated [(''urgent_escalation'', 5)]), escalated_state)
   \<and> initiateFlow example_compose 10 reply_ok escalated_state alice contract ''default''
       = (Inr (Escalated [(''urgent_escalation'', 5)]), escalated_state)
   \<and> escalationHistory (run_calls example_compose escalated_state [bob_call])
        (customer_id alice) = Some [(''urgent_escalation'', 5)]
   \<and> initiateFlow example_compose 20 reply_failed
        (run_calls example_compose escalated_state [bob_call]) alice overdue_contract
        ''default''
       = (Inr (Escalated [(''urgent_escalation'', 5)]),
          run_calls example_compose escalated_state [bob_call])"
proof -
  have open_ids: "escalationHistory escalated_state (customer_id alice)
                    = Some [(''urgent_escalation'', 5)]"
    by (simp add: escalated_state_def alice_def)
  have nonempty: "[(''urgent_escalation'', 5 :: int)] \<noteq> []" by simp
  have known: "''default'' \<in> dom flows" by (simp add: flows_def)
  note t = open_escalation_short_circuits [OF open_ids nonempty,
      where compose = example_compose and flowType = "''default''" and cust' = alice
        and calls = "[bob_call]"]
  from t [where now = 10 and resp = reply_ok and doc = contract and chan = email_channel
            and flow = default_flow and ctx = fresh_context] known
  have r1: "executeChannelStrategy example_compose 10 reply_ok escalated_state alice contract
         email_channel default_flow fresh_context
       = (Inr (Escalated [(''urgent_escalation'', 5)]), escalated_state)"
    and r2: "initiateFlow example_compose 10 reply_ok escalated_state alice contract ''default''
       = (Inr (Escalated [(''urgent_escalation'', 5)]), escalated_state)"
    by blast+
  from t [where now' = 20 and resp' = reply_failed and doc' = overdue_contract] known
  have r3: "initiateFlow example_compose 20 reply_failed
        (run_calls example_compose escalated_state [bob_call]) alice overdue_contract
        ''default''
       = (Inr (Escalated [(''urgent_escalation'', 5)]),
          run_calls example_compose escalated_state [bob_call])"
    by (simp add: Let_def)
  from t [where now' = 20 and resp' = reply_failed and doc' = overdue_contract]
  have r4: "escalationHistory (run_calls example_compose escalated_state [bob_call])
        (customer_id alice) = Some [(''urgent_escalation'', 5)]"
    by (simp add: Let_def)
  from open_ids nonempty known r1 r2 r3 r4 show ?thesis by blast
qed

subsection \<open>The next channel after a failed attempt\<close>

lemma determineNextChannel_fallback:
  assumes "fallbackChannel cur = Some fb"
    and "find (\<lambda>c. type_name (ctype c) = fb) (channels flow) = Some c"
  shows "determineNextChannel flow cur context = Some c"
proof -
  from assms(2) have "type_name (ctype c) = fb" by (auto simp: find_Some_iff)
  then have "fb \<noteq> []" using type_name_nonempty by auto
  with assms show ?thesis by (simp add: determineNextChannel_def)
qed

lemma determineNextChannel_successor:
  assumes nofb: "fallbackChannel cur = None \<or>
      (\<exists>fb. fallbackChannel cur = Some fb \<and> (\<forall>c\<in>set (channels flow). type_name (ctype c) \<noteq> fb))"
    and i: "i < length (channels flow)" "ctype (channels flow ! i) = ctype cur"
      "\<forall>j<i. ctype (channels flow ! j) \<noteq> ctype cur"
  shows "determineNextChannel flow cur context =
           Some (channels flow ! (Suc i mod length (channels flow)))"
proof -
  let ?cs = "channels flow"
  have fb: "(case fallbackChannel cur of None \<Rightarrow> None
             | Some fb \<Rightarrow> if fb = [] then None
                          else find (\<lambda>c. type_name (ctype c) = fb) ?cs) = None"
    using nofb by (auto simp: find_None_iff split: option.splits)
  have idx: "findIndex (\<lambda>c. ctype c = ctype cur) ?cs = int i"
    using i by (intro findIndex_first) auto
  show ?thesis
  proof (cases "Suc i < length ?cs")
    case True
    then have "Suc i mod length ?cs = Suc i" by simp
    with True fb idx show ?thesis
      by (simp add: determineNextChannel_def Let_def at_index_succ)
  next
    case False
    with i(1) have len: "Suc i = length ?cs" by simp
    then have m: "Suc i mod length ?cs = 0" by simp
    have z: "at_index ?cs 0 = Some (?cs ! 0)" using i(1) by (auto simp: at_index_def)
    from False fb idx z m show ?thesis
      by (simp add: determineNextChannel_def Let_def at_index_succ)
  qed
qed

text \<open>
  Claim C8. \<open>determineNextChannel\<close> returns the catalog entry of the failed channel's
  configured fallback when the catalog has an entry of that type. When no fallback is
  configured, or the catalog has no entry of the configured type, it returns the entry
  after the failed channel's position in the catalog, and the first entry when the failed
  channel is the last one. In the default catalog a failure on whatsapp (fallback sms)
  gives sms, and a failure on portal, the last entry, gives email, the first one.
\<close>

theorem determineNextChannel_fallback_or_successor:
  "(fallbackChannel cur = Some fb
      \<and> find (\<lambda>c. type_name (ctype c) = fb) (channels flow) = Some c
     \<longrightarrow> determineNextChannel flow cur ctx = Some c \<and> type_name (ctype c) = fb)
   \<and> ((fallbackChannel cur = None
         \<or> (\<exists>fb. fallbackChannel cur = Some fb
                \<and> (\<forall>c\<in>set (channels flow). type_name (ctype c) \<noteq> fb)))
       \<and> i < length (channels flow) \<and> ctype (channels flow ! i) = ctype cur
       \<and> (\<forall>j<i. ctype (channels flow ! j) \<noteq> ctype cur)
     \<longrightarrow> determineNextChannel flow cur ctx
           = Some (channels flow ! (Suc i mod length (channels flow))))
   \<and> determineNextChannel default_flow whatsapp_channel ctx = Some sms_channel
   \<and> determineNextChannel default_flow portal_channel ctx = Some email_channel"
proof (intro conjI impI)
  assume a: "fallbackChannel cur = Some fb
      \<and> find (\<lambda>c. type_name (ctype c) = fb) (channels flow) = Some c"
  then show "determineNextChannel flow cur ctx = Some c"
    by (intro determineNextChannel_fallback) auto
  from a show "type_name (ctype c) = fb" by (auto simp: find_Some_iff)
next
  assume "(fallbackChannel cur = None
         \<or> (\<exists>fb. fallbackChannel cur = Some fb
                \<and> (\<forall>c\<in>set (channels flow). type_name (ctype c) \<noteq> fb)))
       \<and> i < length (channels flow) \<and> ctype (channels flow ! i) = ctype cur
       \<and> (\<forall>j<i. ctype (channels flow ! j) \<noteq> ctype cur)"
  then show "determineNextChannel flow cur ctx
           = Some (channels flow ! (Suc i mod length (channels flow)))"
    by (intro determineNextChannel_successor) blast+
next
  show "determineNextChannel default_flow whatsapp_channel ctx = Some sms_channel"
    by (simp add: determineNextChannel_def default_flow_def default_channels_def
        email_channel_def whatsapp_channel_def phone_channel_def sms_channel_def)
next
  show "determineNextChannel default_flow portal_channel ctx = Some email_channel"
    by (simp add: determineNextChannel_def default_flow_def default_channels_def
        email_channel_def whatsapp_channel_def phone_channel_def sms_channel_def
        portal_channel_def at_index_def)
qed

theorem determineNextChannel_fallback_or_successor_witness:
  "fallbackChannel whatsapp_channel = Some ''sms''
   \<and> find (\<lambda>c. type_name (ctype c) = ''sms'') (channels default_flow) = Some sms_channel
   \<and> determineNextChannel default_flow whatsapp_channel fresh_context = Some sms_channel
   \<and> fallbackChannel portal_channel = None
   \<and> (4::nat) < length (channels default_flow)
   \<and> ctype (channels default_flow ! 4) = ctype portal_channel
   \<and> ctype (channels default_flow ! 0) \<noteq> ctype portal_channel
   \<and> ctype (channels default_flow ! 1) \<noteq> ctype portal_channel
   \<and> ctype (channels default_flow ! 2) \<noteq> ctype portal_channel
   \<and> ctype (channels default_flow ! 3) \<noteq> ctype portal_channel
   \<and> determineNextChannel default_flow portal_channel fresh_context
        = Some (channels default_flow ! (Suc 4 mod length (channels default_flow)))
   \<and> channels default_flow ! (Suc 4 mod length (channels default_flow)) = email_channel"
proof -
  have cs: "channels default_flow = default_channels" by (simp add: default_flow_def)
  have h1: "fallbackChannel whatsapp_channel = Some ''sms''"
    by (simp add: whatsapp_channel_def)
  have h2: "find (\<lambda>c. type_name (ctype c) = ''sms'') (channels default_flow)
              = Some sms_channel"
    by (simp add: cs default_channels_def channel_ctypes)
  have h3: "fallbackChannel portal_channel = None" by (simp add: portal_channel_def)
  have h4: "(4::nat) < length (channels default_flow)" by (simp add: cs default_channels_nth)
  have h5: "ctype (channels default_flow ! 4) = ctype portal_channel"
    by (simp add: cs default_channels_nth)
  have e: "ctype (channels default_flow ! 0) \<noteq> ctype portal_channel"
    "ctype (channels default_flow ! 1) \<noteq> ctype portal_channel"
    "ctype (channels default_flow ! 2) \<noteq> ctype portal_channel"
    "ctype (channels default_flow ! 3) \<noteq> ctype portal_channel"
    by (simp_all add: cs default_channels_nth channel_ctypes)
  have h6: "\<forall>j<4. ctype (channels default_flow ! j) \<noteq> ctype portal_channel"
  proof (intro allI impI)
    fix j :: nat assume "j < 4"
    then have "j = 0 \<or> j = 1 \<or> j = 2 \<or> j = 3" by auto
    with e show "ctype (channels default_flow ! j) \<noteq> ctype portal_channel" by auto
  qed
  have h7: "channels default_flow ! (Suc 4 mod length (channels default_flow)) = email_channel"
    by (simp add: cs default_channels_nth)
  from determineNextChannel_fallback_or_successor
         [where cur = whatsapp_channel and fb = "''sms''" and flow = default_flow
            and c = sms_channel and ctx = fresh_context] h1 h2
  have r1: "determineNextChannel default_flow whatsapp_channel fresh_context = Some sms_channel"
    by blast
  from determineNextChannel_fallback_or_successor
         [where cur = portal_channel and flow = default_flow and i = 4
            and ctx = fresh_context] h3 h4 h5 h6
  have r2: "determineNextChannel default_flow portal_channel fresh_context
        = Some (channels default_flow ! (Suc 4 mod length (channels default_flow)))"
    by blast
  from h1 h2 h3 h4 h5 e h7 r1 r2 show ?thesis by blast
qed

subsection \<open>The wait before the follow-up\<close>

text \<open>
  Claim C9. For every channel and context, \<open>calculateWaitTime\<close> is the specification's
  \<open>max(baseWaitTime \<times> max(0, 1 - urgencyScore) \<times> max(0.5, engagementScore),
  baseWaitTime \<times> 0.25)\<close>, with the channel's configured wait time as the base.
\<close>

theorem calculateWaitTime_reference:
  "calculateWaitTime chan cust ctx =
     wait_time_reference (waitTime chan) (urgencyScore ctx) (engagementScore ctx)"
  by (simp add: calculateWaitTime_def wait_time_reference_def Let_def)

subsection \<open>Escalation rules\<close>

lemma find_filter: "find P xs = (case filter P xs of [] \<Rightarrow> None | x # rest \<Rightarrow> Some x)"
  by (induction xs) auto

lemma find_sort_key_filter:
  assumes "find P (sort_key f xs) = Some r"
  shows "\<exists>rest. sort_key f (filter P xs) = r # rest"
proof -
  from assms have "(case filter P (sort_key f xs) of [] \<Rightarrow> None | x # rest \<Rightarrow> Some x) = Some r"
    by (simp only: find_filter)
  then obtain rest where "filter P (sort_key f xs) = r # rest"
    by (auto split: list.splits)
  then show ?thesis by (simp add: filter_sort)
qed

lemma sort_key_head_least:
  assumes "sort_key f ys = r # rest"
  shows "r \<in> set ys \<and> (\<forall>y\<in>set ys. f r \<le> f y)"
proof -
  have s: "sorted (map f (sort_key f ys))" by (rule sorted_sort_key)
  have e: "set (sort_key f ys) = set ys" by simp
  from s assms have "\<forall>y\<in>set rest. f r \<le> f y" by simp
  with assms e show ?thesis by (metis list.set_intros(1) order_refl set_ConsD)
qed

lemma no_open_escalations:
  "escalationHistory st cid = None \<or> escalationHistory st cid = Some [] \<Longrightarrow>
     (case escalationHistory st cid of None \<Rightarrow> [] | Some s \<Rightarrow> s) = []"
  by auto

lemma execute_dispatches_first_match:
  assumes none_open: "escalationHistory st (customer_id cust) = None
                    \<or> escalationHistory st (customer_id cust) = Some []"
    and first: "find (\<lambda>rule. condition rule now ctx) (sort_key priority (escalationRules flow))
                  = Some r"
  shows "executeChannelStrategy compose now resp st cust doc chan flow ctx
           = (Inr (fst (handleEscalation now st r cust doc ctx)),
              snd (handleEscalation now st r cust doc ctx))"
proof -
  from find_sort_key_filter [OF first] obtain rest where
    "sort_key priority (filter (\<lambda>rule. condition rule now ctx) (escalationRules flow)) = r # rest"
    by blast
  with no_open_escalations [OF none_open] show ?thesis
    by (simp add: executeChannelStrategy_def Let_def split: prod.splits)
qed

lemma handleEscalation_state:
  "snd (handleEscalation now st rule cust doc ctx)
     = st\<lparr> escalationHistory := (escalationHistory st)(customer_id cust \<mapsto>
             set_add (action rule, now)
               (case escalationHistory st (customer_id cust) of None \<Rightarrow> [] | Some s \<Rightarrow> s)) \<rparr>"
  by (simp add: handleEscalation_def Let_def)

lemma handleEscalation_default:
  assumes "action rule \<notin> {''escalate_to_manager'', ''human_intervention'',
                            ''urgent_escalation'', ''switch_channel''}"
  shows "fst (handleEscalation now st rule cust doc ctx)
           = EscalationStatus ''default_escalation'' ctx"
  using assms by (simp add: handleEscalation_def Let_def handleDefaultEscalation_def)

lemma handleEscalation_known:
  "action rule = ''escalate_to_manager'' \<Longrightarrow>
     fst (handleEscalation now st rule cust doc ctx)
       = EscalationStatus ''escalated_to_manager'' ctx"
  "action rule = ''human_intervention'' \<Longrightarrow>
     fst (handleEscalation now st rule cust doc ctx)
       = EscalationStatus ''human_intervention_required'' ctx"
  "action rule = ''urgent_escalation'' \<Longrightarrow>
     fst (handleEscalation now st rule cust doc ctx)
       = EscalationStatus ''urgent_escalation'' ctx"
  "action rule = ''switch_channel'' \<Longrightarrow>
     fst (handleEscalation now st rule cust doc ctx)
       = EscalationStatus ''channel_switch_required'' ctx"
  by (simp_all add: handleEscalation_def Let_def handleManagerEscalation_def
      handleHumanIntervention_def handleUrgentEscalation_def handleChannelSwitch_def)

text \<open>
  Claim C2. When no escalation is open for the customer, the rule that fires is the first
  one whose condition holds when the flow's rules are gone through in ascending order of
  their priority number (rules of equal priority in catalog order). The call is the
  dispatch of that rule by \<open>handleEscalation\<close>; the rule is in the flow's rule set, its
  condition holds, no rule whose condition holds has a smaller priority number, exactly one
  escalation id, that of the fired rule, is recorded, and the delivery gateway is not
  invoked. The answer is the status of the fired rule's action: \<open>escalated_to_manager\<close>
  for \<open>escalate_to_manager\<close>, \<open>human_intervention_required\<close> for
  \<open>human_intervention\<close>, \<open>urgent_escalation\<close> for \<open>urgent_escalation\<close>,
  \<open>channel_switch_required\<close> for \<open>switch_channel\<close>, and \<open>default_escalation\<close>
  for any other tag, each with the context. With two rules that both hold, of priorities 3
  and 1, the answer is that of the priority-1 action.
\<close>

theorem first_matching_rule_fires:
  assumes "escalationHistory st (customer_id cust) = None
         \<or> escalationHistory st (customer_id cust) = Some []"
    and "find (\<lambda>rule. condition rule now ctx) (sort_key priority (escalationRules flow))
           = Some r"
  shows "executeChannelStrategy compose now resp st cust doc chan flow ctx
           = (Inr (fst (handleEscalation now st r cust doc ctx)),
              snd (handleEscalation now st r cust doc ctx))
       \<and> r \<in> set (escalationRules flow) \<and> condition r now ctx
       \<and> (\<forall>r'\<in>set (escalationRules flow).
             condition r' now ctx \<longrightarrow> priority r \<le> priority r')
       \<and> escalationHistory
            (snd (executeChannelStrategy compose now resp st cust doc chan flow ctx))
            (customer_id cust) = Some [(action r, now)]
       \<and> sent (snd (executeChannelStrategy compose now resp st cust doc chan flow ctx))
           = sent st
       \<and> (action r = ''escalate_to_manager'' \<longrightarrow>
            fst (executeChannelStrategy compose now resp st cust doc chan flow ctx)
              = Inr (EscalationStatus ''escalated_to_manager'' ctx))
       \<and> (action r = ''human_intervention'' \<longrightarrow>
            fst (executeChannelStrategy compose now resp st cust doc chan flow ctx)
              = Inr (EscalationStatus ''human_intervention_required'' ctx))
       \<and> (action r = ''urgent_escalation'' \<longrightarrow>
            fst (executeChannelStrategy compose now resp st cust doc chan flow ctx)
              = Inr (EscalationStatus ''urgent_escalation'' ctx))
       \<and> (action r = ''switch_channel'' \<longrightarrow>
            fst (executeChannelStrategy compose now resp st cust doc chan flow ctx)
              = Inr (EscalationStatus ''channel_switch_required'' ctx))
       \<and> (action r \<notin> {''escalate_to_manager'', ''human_intervention'',
                          ''urgent_escalation'', ''switch_channel''} \<longrightarrow>
            fst (executeChannelStrategy compose now resp st cust doc chan flow ctx)
              = Inr (EscalationStatus ''default_escalation'' ctx))"
proof -
  let ?P = "\<lambda>rule. condition rule now ctx"
  from find_sort_key_filter [OF assms(2)] obtain rest where
    srt: "sort_key priority (filter ?P (escalationRules flow)) = r # rest" by blast
  from sort_key_head_least [OF srt]
  have mem: "r \<in> set (filter ?P (escalationRules flow))"
    and least: "\<forall>y\<in>set (filter ?P (escalationRules flow)). priority r \<le> priority y"
    by blast+
  have ex: "executeChannelStrategy compose now resp st cust doc chan flow ctx
           = (Inr (fst (handleEscalation now st r cust doc ctx)),
              snd (handleEscalation now st r cust doc ctx))"
    using assms by (rule execute_dispatches_first_match)
  have ids: "escalationHistory (snd (handleEscalation now st r cust doc ctx)) (customer_id cust)
               = Some [(action r, now)]"
    using no_open_escalations [OF assms(1)]
    by (simp add: handleEscalation_state set_add_def)
  have snt: "sent (snd (handleEscalation now st r cust doc ctx)) = sent st"
    by (simp add: handleEscalation_state)
  have tags:
    "action r = ''escalate_to_manager'' \<longrightarrow>
       fst (executeChannelStrategy compose now resp st cust doc chan flow ctx)
         = Inr (EscalationStatus ''escalated_to_manager'' ctx)"
    "action r = ''human_intervention'' \<longrightarrow>
       fst (executeChannelStrategy compose now resp st cust doc chan flow ctx)
         = Inr (EscalationStatus ''human_intervention_required'' ctx)"
    "action r = ''urgent_escalation'' \<longrightarrow>
       fst (executeChannelStrategy compose now resp st cust doc chan flow ctx)
         = Inr (EscalationStatus ''urgent_escalation'' ctx)"
    "action r = ''switch_channel'' \<longrightarrow>
       fst (executeChannelStrategy compose now resp st cust doc chan flow ctx)
         = Inr (EscalationStatus ''channel_switch_required'' ctx)"
    "action r \<notin> {''escalate_to_manager'', ''human_intervention'',
                   ''urgent_escalation'', ''switch_channel''} \<longrightarrow>
       fst (executeChannelStrategy compose now resp st cust doc chan flow ctx)
         = Inr (EscalationStatus ''default_escalation'' ctx)"
    using handleEscalation_known [of r now st cust doc ctx]
      handleEscalation_default [of r now st cust doc ctx]
    by (simp_all add: ex)
  have sel: "r \<in> set (escalationRules flow) \<and> condition r now ctx
       \<and> (\<forall>r'\<in>set (escalationRules flow).
             condition r' now ctx \<longrightarrow> priority r \<le> priority r')"
    using mem least by simp
  have st_after: "escalationHistory
            (snd (executeChannelStrategy compose now resp st cust doc chan flow ctx))
            (customer_id cust) = Some [(action r, now)]
       \<and> sent (snd (executeChannelStrategy compose now resp st cust doc chan flow ctx))
           = sent st"
    using ids snt by (simp add: ex)
  from ex sel st_after tags show ?thesis by blast
qed

theorem first_matching_rule_fires_witness:
  "(escalationHistory (initial :: string Coordinator) (customer_id alice) = None
      \<or> escalationHistory (initial :: string Coordinator) (customer_id alice) = Some [])
   \<and> find (\<lambda>rule. condition rule 7 fresh_context)
        (sort_key priority (escalationRules two_rule_flow))
       = Some (escalationRules two_rule_flow ! 1)
   \<and> priority (escalationRules two_rule_flow ! 0) = 3
   \<and> priority (escalationRules two_rule_flow ! 1) = 1
   \<and> executeChannelStrategy example_compose 7 reply_ok initial alice contract email_channel
        two_rule_flow fresh_context
       = (Inr (EscalationStatus ''escalated_to_manager'' fresh_context),
          initial \<lparr> escalationHistory := [''alice'' \<mapsto> [(''escalate_to_manager'', 7)]] \<rparr>)"
proof -
  have h1: "escalationHistory (initial :: string Coordinator) (customer_id alice) = None
      \<or> escalationHistory (initial :: string Coordinator) (customer_id alice) = Some []"
    by (simp add: initial_def)
  have h2: "find (\<lambda>rule. condition rule 7 fresh_context)
        (sort_key priority (escalationRules two_rule_flow))
       = Some (escalationRules two_rule_flow ! 1)"
    by (simp add: two_rule_flow_def)
  have p: "priority (escalationRules two_rule_flow ! 0) = 3"
    "priority (escalationRules two_rule_flow ! 1) = 1"
    by (simp_all add: two_rule_flow_def)
  have hs: "handleEscalation 7 (initial :: string Coordinator) (escalationRules two_rule_flow ! 1)
              alice contract fresh_context
            = (EscalationStatus ''escalated_to_manager'' fresh_context,
               initial \<lparr> escalationHistory := [''alice'' \<mapsto> [(''escalate_to_manager'', 7)]] \<rparr>)"
    by (simp add: handleEscalation_def two_rule_flow_def Let_def handleManagerEscalation_def
        initial_def alice_def set_add_def)
  from first_matching_rule_fires [OF h1 h2, where compose = example_compose
      and resp = reply_ok and doc = contract and chan = email_channel] hs
  have "executeChannelStrategy example_compose 7 reply_ok initial alice contract email_channel
        two_rule_flow fresh_context
       = (Inr (EscalationStatus ''escalated_to_manager'' fresh_context),
          initial \<lparr> escalationHistory := [''alice'' \<mapsto> [(''escalate_to_manager'', 7)]] \<rparr>)"
    by simp
  with h1 h2 p show ?thesis by blast
qed

subsection \<open>Unknown configuration identifiers\<close>

text \<open>
  Claim C3, as stated, fails on the rule dispatch. The fifth rule of the default flow has
  the action tag \<open>try_alternative_channel\<close>, which is none of the four tags that
  \<open>handleEscalation\<close> names; on a coordinator that has seen no call this rule is the one
  that fires, and the call is not rejected: it returns the status \<open>default_escalation\<close>
  and records the escalation id.
\<close>

theorem unknown_action_tag_counterexample:
  "action (default_rules ! 4) = ''try_alternative_channel''
   \<and> initiateFlow example_compose 0 reply_ok initial alice contract ''default''
       = (Inr (EscalationStatus ''default_escalation'' fresh_context),
          initial \<lparr> escalationHistory := [''alice'' \<mapsto> [(''try_alternative_channel'', 0)]] \<rparr>)"
proof -
  have a: "action (default_rules ! 4) = ''try_alternative_channel''"
    by (simp add: default_rules_def)
  have ctx: "buildEscalationContext (initial :: string Coordinator) alice contract
               (getCustomerHistory initial (customer_id alice)) = fresh_context"
    by (simp add: fresh_context_def getCustomerHistory_def initial_def)
  have none: "escalationHistory (initial :: string Coordinator) (customer_id alice) = None"
    by (simp add: initial_def)
  have rules: "sort_key priority
      (filter (\<lambda>rule. condition rule 0 fresh_context) (escalationRules default_flow))
      = [default_rules ! 4]"
    by (simp add: default_flow_def fresh_matching_rules)
  have h: "handleEscalation 0 (initial :: string Coordinator) (default_rules ! 4) alice contract
             fresh_context
           = (EscalationStatus ''default_escalation'' fresh_context,
              initial \<lparr> escalationHistory :=
                          [''alice'' \<mapsto> [(''try_alternative_channel'', 0)]] \<rparr>)"
    by (simp add: handleEscalation_def a Let_def handleDefaultEscalation_def initial_def
        alice_def set_add_def)
  have e: "executeChannelStrategy example_compose 0 reply_ok initial alice contract
             email_channel default_flow fresh_context
           = (Inr (EscalationStatus ''default_escalation'' fresh_context),
              initial \<lparr> escalationHistory :=
                          [''alice'' \<mapsto> [(''try_alternative_channel'', 0)]] \<rparr>)"
    by (simp add: executeChannelStrategy_def none rules h Let_def)
  have "initiateFlow example_compose 0 reply_ok initial alice contract ''default''
       = (Inr (EscalationStatus ''default_escalation'' fresh_context),
          initial \<lparr> escalationHistory := [''alice'' \<mapsto> [(''try_alternative_channel'', 0)]] \<rparr>)"
    by (simp add: initiateFlow_def flows_def ctx fresh_select e Let_def)
  with a show ?thesis by blast
qed

text \<open>
  Claim C3, amended. A call of \<open>initiateFlow\<close> with a flow-type name that the catalog
  does not have is rejected with an error, and the coordinator is unchanged. A rule whose
  action tag is none of \<open>escalate_to_manager\<close>, \<open>human_intervention\<close>,
  \<open>urgent_escalation\<close>, \<open>switch_channel\<close> is dispatched to the default handler:
  \<open>handleEscalation\<close> records the escalation id and returns the status
  \<open>default_escalation\<close> with the context, and the orchestration call in which such a rule
  fires returns that result, not an error.
\<close>

theorem unknown_flow_rejected_unknown_action_defaulted:
  "(flows flowType = None \<longrightarrow>
      initiateFlow compose now resp st cust doc flowType = (Inl (FlowNotFound flowType), st))
   \<and> (action rule \<notin> {''escalate_to_manager'', ''human_intervention'',
                       ''urgent_escalation'', ''switch_channel''} \<longrightarrow>
        handleEscalation now st rule cust doc ctx
          = (EscalationStatus ''default_escalation'' ctx,
             st\<lparr> escalationHistory := (escalationHistory st)(customer_id cust \<mapsto>
                   set_add (action rule, now)
                     (case escalationHistory st (customer_id cust) of
                        None \<Rightarrow> [] | Some s \<Rightarrow> s)) \<rparr>))
   \<and> ((escalationHistory st (customer_id cust) = None
          \<or> escalationHistory st (customer_id cust) = Some [])
       \<and> find (\<lambda>rule. condition rule now ctx) (sort_key priority (escalationRules flow))
           = Some rule
       \<and> action rule \<notin> {''escalate_to_manager'', ''human_intervention'',
                          ''urgent_escalation'', ''switch_channel''} \<longrightarrow>
        fst (executeChannelStrategy compose now resp st cust doc chan flow ctx)
          = Inr (EscalationStatus ''default_escalation'' ctx))"
proof (intro conjI impI)
  assume "flows flowType = None"
  then show "initiateFlow compose now resp st cust doc flowType
               = (Inl (FlowNotFound flowType), st)"
    by (simp add: initiateFlow_def)
next
  assume u: "action rule \<notin> {''escalate_to_manager'', ''human_intervention'',
                       ''urgent_escalation'', ''switch_channel''}"
  have "handleEscalation now st rule cust doc ctx
          = (fst (handleEscalation now st rule cust doc ctx),
             snd (handleEscalation now st rule cust doc ctx))" by simp
  then show "handleEscalation now st rule cust doc ctx
          = (EscalationStatus ''default_escalation'' ctx,
             st\<lparr> escalationHistory := (escalationHistory st)(customer_id cust \<mapsto>
                   set_add (action rule, now)
                     (case escalationHistory st (customer_id cust) of
                        None \<Rightarrow> [] | Some s \<Rightarrow> s)) \<rparr>)"
    by (simp only: handleEscalation_default [OF u] handleEscalation_state)
next
  assume a: "(escalationHistory st (customer_id cust) = None
          \<or> escalationHistory st (customer_id cust) = Some [])
       \<and> find (\<lambda>rule. condition rule now ctx) (sort_key priority (escalationRules flow))
           = Some rule
       \<and> action rule \<notin> {''escalate_to_manager'', ''human_intervention'',
                          ''urgent_escalation'', ''switch_channel''}"
  then have "executeChannelStrategy compose now resp st cust doc chan flow ctx
           = (Inr (fst (handleEscalation now st rule cust doc ctx)),
              snd (handleEscalation now st rule cust doc ctx))"
    by (intro execute_dispatches_first_match) blast+
  moreover from a have "fst (handleEscalation now st rule cust doc ctx)
           = EscalationStatus ''default_escalation'' ctx"
    by (intro handleEscalation_default) blast
  ultimately show "fst (executeChannelStrategy compose now resp st cust doc chan flow ctx)
          = Inr (EscalationStatus ''default_escalation'' ctx)" by simp
qed

theorem unknown_flow_rejected_unknown_action_defaulted_witness:
  "flows ''express'' = None
   \<and> initiateFlow example_compose 0 reply_ok initial alice contract ''express''
       = (Inl (FlowNotFound ''express''), initial)
   \<and> action (default_rules ! 4) \<notin> {''escalate_to_manager'', ''human_intervention'',
                                     ''urgent_escalation'', ''switch_channel''}
   \<and> (escalationHistory (initial :: string Coordinator) (customer_id alice) = None
        \<or> escalationHistory (initial :: string Coordinator) (customer_id alice) = Some [])
   \<and> find (\<lambda>rule. condition rule 0 fresh_context)
        (sort_key priority (escalationRules default_flow)) = Some (default_rules ! 4)
   \<and> fst (handleEscalation 0 (initial :: string Coordinator) (default_rules ! 4) alice contract
            fresh_context)
       = EscalationStatus ''default_escalation'' fresh_context
   \<and> fst (executeChannelStrategy example_compose 0 reply_ok initial alice contract
            email_channel default_flow fresh_context)
       = Inr (EscalationStatus ''default_escalation'' fresh_context)"
proof -
  have h1: "flows ''express'' = None" by (simp add: flows_def)
  have h2: "action (default_rules ! 4) \<notin> {''escalate_to_manager'', ''human_intervention'',
                                     ''urgent_escalation'', ''switch_channel''}"
    by (simp add: default_rules_def)
  have h3: "escalationHistory (initial :: string Coordinator) (customer_id alice) = None
        \<or> escalationHistory (initial :: string Coordinator) (customer_id alice) = Some []"
    by (simp add: initial_def)
  have "find (\<lambda>rule. condition rule 0 fresh_context)
        (sort_key priority (escalationRules default_flow))
        = (case sort_key priority (filter (\<lambda>rule. condition rule 0 fresh_context)
                  (escalationRules default_flow)) of [] \<Rightarrow> None | x # rest \<Rightarrow> Some x)"
    by (simp only: find_filter filter_sort)
  then have h4: "find (\<lambda>rule. condition rule 0 fresh_context)
        (sort_key priority (escalationRules default_flow)) = Some (default_rules ! 4)"
    by (simp add: default_flow_def fresh_matching_rules)
  note t = unknown_flow_rejected_unknown_action_defaulted
             [where flowType = "''express''" and compose = example_compose and now = 0
                and resp = reply_ok and st = "initial :: string Coordinator" and cust = alice
                and doc = contract and rule = "default_rules ! 4" and ctx = fresh_context
                and flow = default_flow and chan = email_channel]
  from t h1 have r1: "initiateFlow example_compose 0 reply_ok initial alice contract ''express''
       = (Inl (FlowNotFound ''express''), initial)" by blast
  from t h2 have r2: "fst (handleEscalation 0 (initial :: string Coordinator) (default_rules ! 4)
            alice contract fresh_context)
       = EscalationStatus ''default_escalation'' fresh_context" by simp
  from t h2 h3 h4 have r3: "fst (executeChannelStrategy example_compose 0 reply_ok initial alice
            contract email_channel default_flow fresh_context)
       = Inr (EscalationStatus ''default_escalation'' fresh_context)" by blast
  from h1 h2 h3 h4 r1 r2 r3 show ?thesis by blast
qed

subsection \<open>The send path and the attempt bound\<close>

lemma generateMessage_throws:
  "generateMessage compose st cust doc chan ctx = Inl TypeError"
  by (simp add: generateMessage_def documentProcessor_analyze_def Let_def split: option.splits)

lemma determineNextChannel_maxAttempts:
  "determineNextChannel (flow\<lparr>maxAttempts := m\<rparr>) cur ctx = determineNextChannel flow cur ctx"
proof -
  have eq: "channels (flow\<lparr>maxAttempts := m\<rparr>) = channels flow" by simp
  show ?thesis unfolding determineNextChannel_def eq by (rule refl)
qed

lemma scheduleFollowUp_maxAttempts:
  "scheduleFollowUp compose now st cust doc (flow\<lparr>maxAttempts := m\<rparr>) cur ctx
     = scheduleFollowUp compose now st cust doc flow cur ctx"
  by (simp add: scheduleFollowUp_def determineNextChannel_maxAttempts)

lemma execute_maxAttempts:
  "executeChannelStrategy compose now resp st cust doc chan (flow\<lparr>maxAttempts := m\<rparr>) ctx
     = executeChannelStrategy compose now resp st cust doc chan flow ctx"
proof -
  have eq: "escalationRules (flow\<lparr>maxAttempts := m\<rparr>) = escalationRules flow" by simp
  show ?thesis
    unfolding executeChannelStrategy_def Let_def scheduleFollowUp_maxAttempts eq
    by (rule refl)
qed


lemma execute_never_sends:
  "sent (snd (executeChannelStrategy compose now resp st cust doc chan flow ctx)) = sent st"
proof -
  have h: "\<And>rule r s. handleEscalation now st rule cust doc ctx = (r, s) \<Longrightarrow> sent s = sent st"
  proof -
    fix rule r s assume "handleEscalation now st rule cust doc ctx = (r, s)"
    then have "s = snd (handleEscalation now st rule cust doc ctx)" by simp
    then show "sent s = sent st" by (simp add: handleEscalation_state)
  qed
  show ?thesis
    using h
    by (auto simp: executeChannelStrategy_def Let_def generateMessage_throws
        split: list.splits prod.splits)
qed

lemma initiateFlow_never_sends:
  "sent (snd (initiateFlow compose now resp st cust doc flowType)) = sent st"
  by (simp add: initiateFlow_def Let_def execute_never_sends split: option.splits sum.splits)

lemma gateway_never_invoked: "sent (run_calls compose st calls) = sent st"
  by (induction calls arbitrary: st) (simp_all add: initiateFlow_never_sends)




subsection \<open>Urgency\<close>

lemma messaging_urgency_past_due:
  assumes "due_date doc = Some due" and "due < now"
  shows "messaging_calculateUrgencyScore now doc = 100"
proof -
  from assms(2) have neg: "(due - now) div (1000 * 60 * 60 * 24) < 0"
    by (simp add: pos_imp_zdiv_neg_iff)
  have nonneg: "0 \<le> (case reminder_count doc of None \<Rightarrow> (0::real)
             | Some n \<Rightarrow> if n = 0 then 0 else min 20 (real n * 5))"
    by (auto split: option.splits)
  have imp: "(0::real) \<le> (if doc_type doc = ''Legal'' then 20 else 0)
            + (if doc_type doc = ''Financial'' then 15 else 0)" by simp
  show ?thesis
    unfolding messaging_calculateUrgencyScore_def Let_def
    using neg nonneg imp assms(1) by (simp del: mult_numeral_left_semiring_numeral)
qed

text \<open>
  Claim C5 does not hold of the coordinator: its \<open>calculateUrgencyScore\<close> returns 0.5
  for every document, also for one whose due date is in the past, for which the claim gives
  100. The buckets and bonuses of the claim are those of the function of the same name in
  the messaging engine, which returns 100 on the same document (and on every document that
  is past due, by the lemma above).
\<close>

theorem orchestrator_urgency_placeholder:
  "calculateUrgencyScore overdue_contract = 0.5
   \<and> urgencyScore (buildEscalationContext (initial :: string Coordinator) alice
                     overdue_contract []) = 0.5
   \<and> due_date overdue_contract = Some 0
   \<and> messaging_calculateUrgencyScore (24 * 60 * 60 * 1000) overdue_contract = 100"
  by (simp add: calculateUrgencyScore_def buildEscalationContext_def overdue_contract_def
      messaging_calculateUrgencyScore_def)

subsection \<open>Engagement\<close>





subsection \<open>The effectiveness store\<close>

lemma updated_value:
  "getChannelEffectiveness (updateChannelEffectiveness st c t a) c t
     = Some (max 0 (min 1 (fadd (or_default (getChannelEffectiveness st c t) 0.5) a)))"
  by (simp add: getChannelEffectiveness_def updateChannelEffectiveness_def Let_def
      split: option.splits)


lemma updated_value_in_unit:
  "getChannelEffectiveness (updateChannelEffectiveness st c t a) c t = Some v
     \<Longrightarrow> 0 \<le> v \<and> v \<le> 1"
  by (auto simp: updated_value)

lemma updateChannelEffectiveness_in_unit:
  assumes "effectiveness_in_unit st"
  shows "effectiveness_in_unit (updateChannelEffectiveness st c t a)"
  using assms unfolding effectiveness_in_unit_def updateChannelEffectiveness_def Let_def
  by (auto split: option.splits if_splits)

lemma apply_adjustments_in_unit:
  "effectiveness_in_unit st \<Longrightarrow> effectiveness_in_unit (apply_adjustments st c t as)"
  by (induction as arbitrary: st) (simp_all add: updateChannelEffectiveness_in_unit)

lemma initial_in_unit: "effectiveness_in_unit initial"
  by (simp add: effectiveness_in_unit_def initial_def)


subsection \<open>Channel selection\<close>

lemma channel_total_score_formula:
  "channel_total_score st ctx chan =
     fadd (with_success_rate (threshold_score chan ctx)
             (getChannelHistory st (customer_id (customer ctx)) (ctype chan)))
          (case ctx_channelEffectiveness ctx (ctype chan) of None \<Rightarrow> 0 | Some v \<Rightarrow> v)"
proof -
  have b: "or_default (ctx_channelEffectiveness ctx (ctype chan)) 0
             = (case ctx_channelEffectiveness ctx (ctype chan) of None \<Rightarrow> 0 | Some v \<Rightarrow> v)"
    by (cases "ctx_channelEffectiveness ctx (ctype chan)") simp_all
  have c: "calculateChannelScore st chan ctx
             = with_success_rate (threshold_score chan ctx)
                 (getChannelHistory st (customer_id (customer ctx)) (ctype chan))"
    by (simp add: calculateChannelScore_def threshold_score_def with_success_rate_def Let_def)
  show ?thesis unfolding channel_total_score_def b c by (rule refl)
qed

lemma failing_email_context_simps:
  "urgencyScore failing_email_context = 0.5"
  "engagementScore failing_email_context = 0.5"
  "lastResponse failing_email_context = Some (recorded False)"
  "customer_id (customer failing_email_context) = ''alice''"
  "ctx_channelEffectiveness failing_email_context Email = Some (tenths 1)"
  "ctx_channelEffectiveness failing_email_context Whatsapp = None"
  "ctx_channelEffectiveness failing_email_context Phone = None"
  "ctx_channelEffectiveness failing_email_context Sms = None"
  "ctx_channelEffectiveness failing_email_context Portal = None"
  by (simp_all add: failing_email_context_def buildEscalationContext_def
      calculateUrgencyScore_def calculateEngagementScore_def getChannelEffectiveness_def
      failing_email_state_def alice_def getCustomerHistory_def recorded_def slice_last5_def)

lemma failing_email_history:
  "getChannelHistory failing_email_state ''alice'' Email
     = [recorded False, recorded False, recorded False, recorded False]"
  "getChannelHistory failing_email_state ''alice'' Whatsapp = []"
  "getChannelHistory failing_email_state ''alice'' Phone = []"
  "getChannelHistory failing_email_state ''alice'' Sms = []"
  "getChannelHistory failing_email_state ''alice'' Portal = []"
  by (simp_all add: getChannelHistory_def getInteractionHistory_def failing_email_state_def
      recorded_def)

lemmas example_scoring =
  threshold_score_def with_success_rate_def channel_ctypes recorded_def
  email_channel_def whatsapp_channel_def phone_channel_def sms_channel_def portal_channel_def
  fadd_def fmul_def fdiv_def tenths_values double_values Let_def

lemma failing_email_scores:
  "channel_total_score failing_email_state failing_email_context email_channel
     = 7205759403792793 / 9007199254740992"
  "channel_total_score failing_email_state failing_email_context whatsapp_channel = tenths 2"
  "channel_total_score failing_email_state failing_email_context phone_channel = tenths 2"
  "channel_total_score failing_email_state failing_email_context sms_channel = tenths 4"
  "channel_total_score failing_email_state failing_email_context portal_channel = tenths 7"
  by (simp_all add: channel_total_score_formula failing_email_context_simps
      failing_email_history example_scoring)

lemma failing_email_select:
  "selectOptimalChannel failing_email_state failing_email_context default_flow
     = Inr email_channel"
  by (simp add: selectOptimalChannel_def default_flow_def default_channels_def
      failing_email_scores tenths_values)

lemma close_scores_context_simps:
  "urgencyScore close_scores_context = 0.5"
  "engagementScore close_scores_context = 0.5"
  "lastResponse close_scores_context = None"
  "customer_id (customer close_scores_context) = ''alice''"
  "ctx_channelEffectiveness close_scores_context Email = Some (tenths 1)"
  "ctx_channelEffectiveness close_scores_context Whatsapp = None"
  "ctx_channelEffectiveness close_scores_context Phone = None"
  "ctx_channelEffectiveness close_scores_context Sms = Some (tenths 4)"
  "ctx_channelEffectiveness close_scores_context Portal = None"
  by (simp_all add: close_scores_context_def buildEscalationContext_def
      calculateUrgencyScore_def calculateEngagementScore_def getChannelEffectiveness_def
      close_scores_state_def alice_def getCustomerHistory_def)

lemma close_scores_history: "getChannelHistory close_scores_state ''alice'' t = []"
  by (simp add: getChannelHistory_def getInteractionHistory_def close_scores_state_def)

lemma close_scores:
  "channel_total_score close_scores_state close_scores_context email_channel = tenths 6"
  "channel_total_score close_scores_state close_scores_context whatsapp_channel = 0"
  "channel_total_score close_scores_state close_scores_context phone_channel = 0"
  "channel_total_score close_scores_state close_scores_context sms_channel
     = 1351079888211149 / 2251799813685248"
  "channel_total_score close_scores_state close_scores_context portal_channel = 1 / 2"
  by (simp_all add: channel_total_score_formula close_scores_context_simps
      close_scores_history example_scoring)

lemma close_scores_select:
  "selectOptimalChannel close_scores_state close_scores_context default_flow
     = Inr sms_channel"
  by (simp add: selectOptimalChannel_def default_flow_def default_channels_def
      close_scores tenths_values)

text \<open>
  Claim C4, as stated, fails on the bonus of a channel with no stored effectiveness. On the
  coordinator that holds four failed attempts on email and the effectiveness 0.1 for email,
  portal has no stored value. With the bonus of 0.5 that the claim gives to portal, portal
  scores 1.2 and email 0.7999999999999999, so portal would be selected;
  \<open>selectOptimalChannel\<close> selects email.
\<close>

theorem effectiveness_default_counterexample:
  "ctx_channelEffectiveness failing_email_context (ctype portal_channel) = None
   \<and> portal_channel \<in> set (channels default_flow)
   \<and> selectOptimalChannel failing_email_state failing_email_context default_flow
       = Inr email_channel
   \<and> claimed_total_score failing_email_state failing_email_context email_channel
       = 7205759403792793 / 9007199254740992
   \<and> claimed_total_score failing_email_state failing_email_context portal_channel
       = tenths 12
   \<and> (7205759403792793 / 9007199254740992 :: real) < tenths 12"
proof -
  have "claimed_total_score failing_email_state failing_email_context email_channel
          = 7205759403792793 / 9007199254740992"
    "claimed_total_score failing_email_state failing_email_context portal_channel = tenths 12"
    by (simp_all add: claimed_total_score_def failing_email_context_simps
        failing_email_history example_scoring)
  moreover have "portal_channel \<in> set (channels default_flow)"
    by (simp add: default_flow_def default_channels_def)
  moreover have "ctx_channelEffectiveness failing_email_context (ctype portal_channel) = None"
    by (simp add: channel_ctypes failing_email_context_simps)
  moreover have "(7205759403792793 / 9007199254740992 :: real) < tenths 12"
    by (simp add: tenths_values)
  ultimately show ?thesis using failing_email_select by blast
qed

text \<open>
  Claim C4, amended. \<open>selectOptimalChannel\<close> returns the highest-scoring channel of a
  non-empty catalog, the first listed among those of equal score, where the score of a
  channel is the sum in double arithmetic, in this order, of: 0.3 if the context's urgency
  is at least the channel's urgency threshold, 0.2 if there is a last response and its
  sentiment is at least the sentiment threshold, 0.2 if the engagement is at least the
  engagement threshold, 0.3 times the customer's success rate on the channel when the
  channel has an attempt, and the stored effectiveness value of the channel, nothing for a
  channel with no stored value. Two scores are equal when these rounded sums are: with 0.1
  stored for email and 0.4 for sms and no attempt, email scores 0.6 and sms
  0.6000000000000001, and sms is selected.
\<close>

theorem selectOptimalChannel_highest_score_first:
  "channel_total_score st ctx chan =
     fadd (with_success_rate (threshold_score chan ctx)
             (getChannelHistory st (customer_id (customer ctx)) (ctype chan)))
          (case ctx_channelEffectiveness ctx (ctype chan) of None \<Rightarrow> 0 | Some v \<Rightarrow> v)
   \<and> (channels flow \<noteq> [] \<longrightarrow>
        (\<exists>i<length (channels flow).
           selectOptimalChannel st ctx flow = Inr (channels flow ! i)
         \<and> (\<forall>j<length (channels flow).
               channel_total_score st ctx (channels flow ! j)
                 \<le> channel_total_score st ctx (channels flow ! i))
         \<and> (\<forall>j<i. channel_total_score st ctx (channels flow ! j)
                 < channel_total_score st ctx (channels flow ! i))))"
  using channel_total_score_formula selectOptimalChannel_index by blast

theorem selectOptimalChannel_highest_score_first_witness:
  "channels default_flow \<noteq> []
   \<and> (\<exists>i<length (channels default_flow).
         selectOptimalChannel close_scores_state close_scores_context default_flow
           = Inr (channels default_flow ! i)
       \<and> (\<forall>j<length (channels default_flow).
             channel_total_score close_scores_state close_scores_context
                 (channels default_flow ! j)
               \<le> channel_total_score close_scores_state close_scores_context
                   (channels default_flow ! i))
       \<and> (\<forall>j<i. channel_total_score close_scores_state close_scores_context
                    (channels default_flow ! j)
               < channel_total_score close_scores_state close_scores_context
                   (channels default_flow ! i)))
   \<and> selectOptimalChannel close_scores_state close_scores_context default_flow
       = Inr sms_channel
   \<and> channel_total_score close_scores_state close_scores_context email_channel = tenths 6
   \<and> channel_total_score close_scores_state close_scores_context sms_channel
       = 1351079888211149 / 2251799813685248
   \<and> tenths 6 < (1351079888211149 / 2251799813685248 :: real)
   \<and> selectOptimalChannel failing_email_state failing_email_context default_flow
       = Inr email_channel
   \<and> channel_total_score failing_email_state failing_email_context email_channel
       = 7205759403792793 / 9007199254740992
   \<and> channel_total_score failing_email_state failing_email_context portal_channel = tenths 7"
proof -
  have ne: "channels default_flow \<noteq> []"
    by (simp add: default_flow_def default_channels_def)
  from selectOptimalChannel_highest_score_first
         [where st = close_scores_state and ctx = close_scores_context
            and flow = default_flow] ne
  have "\<exists>i<length (channels default_flow).
         selectOptimalChannel close_scores_state close_scores_context default_flow
           = Inr (channels default_flow ! i)
       \<and> (\<forall>j<length (channels default_flow).
             channel_total_score close_scores_state close_scores_context
                 (channels default_flow ! j)
               \<le> channel_total_score close_scores_state close_scores_context
                   (channels default_flow ! i))
       \<and> (\<forall>j<i. channel_total_score close_scores_state close_scores_context
                    (channels default_flow ! j)
               < channel_total_score close_scores_state close_scores_context
                   (channels default_flow ! i))"
    by blast
  moreover have "tenths 6 < (1351079888211149 / 2251799813685248 :: real)"
    by (simp add: tenths_values)
  ultimately show ?thesis
    using ne close_scores_select close_scores(1,4) failing_email_select
      failing_email_scores(1,5) by blast
qed

end
